theory Spec2Isabelle
  imports Main
begin

section \<open>The authentication context seen by the pages\<close>

text \<open>
  \<^verbatim>\<open>useAuth()\<close> hands every page the triple \<^verbatim>\<open>{ user, isProfileComplete, loading }\<close>.
  The user object is the identity provider's record; the fields below are the ones the
  application reads (\<^verbatim>\<open>user.id\<close>, \<^verbatim>\<open>user.email\<close>, \<^verbatim>\<open>user.user_metadata?.full_name\<close>,
  \<^verbatim>\<open>user.user_metadata?.avatar_url\<close>, \<^verbatim>\<open>user.app_metadata?.provider\<close>). A field that may be
  \<^verbatim>\<open>undefined\<close> is an option.
\<close>

record user =
  user_id :: string
  user_email :: string
  full_name :: "string option"
  avatar_url :: "string option"
  provider :: "string option"

record auth_ctx =
  ctx_loading :: bool
  ctx_user :: "user option"
  ctx_isProfileComplete :: bool

section \<open>The OAuth callback page\<close>

text \<open>
  \<^verbatim>\<open>new URLSearchParams(s)\<close> is a browser built-in; its result is taken as the list of
  name/value pairs it yields, in order. \<^verbatim>\<open>get(name)\<close> returns the first value stored
  under the name, or \<^verbatim>\<open>null\<close>.
\<close>

type_synonym url_params = "(string \<times> string) list"

record location =
  search :: url_params
  hash :: url_params

definition params_get :: "url_params \<Rightarrow> string \<Rightarrow> string option" where
  "params_get ps name = map_of ps name"

text \<open>JavaScript truthiness of a value that is a string or \<^verbatim>\<open>null\<close>.\<close>

definition truthy_str :: "string option \<Rightarrow> bool" where
  "truthy_str v = (case v of None \<Rightarrow> False | Some s \<Rightarrow> s \<noteq> [])"

text \<open>\<^verbatim>\<open>a || b\<close> on two such values, where the second is known to be a string.\<close>

definition or_else :: "string option \<Rightarrow> string \<Rightarrow> string" where
  "or_else a b = (if truthy_str a then the a else b)"

text \<open>
  The component's own state: the \<^verbatim>\<open>error\<close> and \<^verbatim>\<open>authLoading\<close> cells of \<^verbatim>\<open>useState\<close>
  (the router version has no \<^verbatim>\<open>authLoading\<close> cell; it stays at its initial value there),
  and the calls made so far to \<^verbatim>\<open>navigate\<close> (router version) or \<^verbatim>\<open>setView\<close>
  (view-switch version), oldest first.
\<close>

record callback_state =
  cb_error :: "string option"
  cb_authLoading :: bool
  cb_navigated :: "string list"

definition callback_init :: callback_state where
  "callback_init = \<lparr> cb_error = None, cb_authLoading = True, cb_navigated = [] \<rparr>"

text \<open>
  The effect of the router version of \<^verbatim>\<open>AuthCallback\<close>: it reads the error parameters
  from \<^verbatim>\<open>window.location.hash.substring(1)\<close>.
\<close>

definition AuthCallback_router_effect ::
  "location \<Rightarrow> auth_ctx \<Rightarrow> callback_state \<Rightarrow> callback_state" where
  "AuthCallback_router_effect loc c st =
     (if ctx_loading c then st
      else
        let urlParams = hash loc;
            authError = params_get urlParams ''error'';
            errorDescription = params_get urlParams ''error_description''
        in if truthy_str authError
           then st\<lparr>cb_error := Some (''Authentication error: '' @ or_else errorDescription (the authError))\<rparr>
           else if ctx_user c \<noteq> None
           then (if ctx_isProfileComplete c
                 then st\<lparr>cb_navigated := cb_navigated st @ [''/dashboard'']\<rparr>
                 else st\<lparr>cb_navigated := cb_navigated st @ [''/student-profile'']\<rparr>)
           else if \<not> ctx_loading c
           then st\<lparr>cb_error := Some ''Authentication failed. Please try logging in again.''\<rparr>
           else st)"

text \<open>
  The effect of the view-switch version: it reads \<^verbatim>\<open>window.location.search\<close> and only the
  \<^verbatim>\<open>error\<close> parameter.
\<close>

definition AuthCallback_views_effect ::
  "location \<Rightarrow> auth_ctx \<Rightarrow> callback_state \<Rightarrow> callback_state" where
  "AuthCallback_views_effect loc c st =
     (if ctx_loading c then st
      else
        let urlParams = search loc;
            authError = params_get urlParams ''error''
        in if truthy_str authError
           then st\<lparr>cb_error := Some (''Authentication error: '' @ the authError), cb_authLoading := False\<rparr>
           else if ctx_user c \<noteq> None
           then (if ctx_isProfileComplete c
                 then st\<lparr>cb_navigated := cb_navigated st @ [''dashboard'']\<rparr>
                 else st\<lparr>cb_navigated := cb_navigated st @ [''studentProfile'']\<rparr>)
           else st\<lparr>cb_error := Some ''Authentication failed. Please try again.'', cb_authLoading := False\<rparr>)"

text \<open>
  What the component renders. The error screen carries the message and the target of its
  "Return to Login" button.
\<close>

datatype callback_view =
    Completing
  | ErrorDisplay string string
  | Successful

definition AuthCallback_router_render :: "callback_state \<Rightarrow> callback_view" where
  "AuthCallback_router_render st =
     (if truthy_str (cb_error st) then ErrorDisplay (the (cb_error st)) ''/login''
      else Completing)"

definition AuthCallback_views_render :: "callback_state \<Rightarrow> callback_view" where
  "AuthCallback_views_render st =
     (if cb_authLoading st \<and> \<not> truthy_str (cb_error st) then Completing
      else if truthy_str (cb_error st) then ErrorDisplay (the (cb_error st)) ''login''
      else Successful)"

text \<open>
  React runs the effect after the first render and again after every render in which one of
  its dependencies \<^verbatim>\<open>[loading, user, isProfileComplete, ...]\<close> has changed. A run of the
  component is the list of context values at which the effect ran, oldest first.
\<close>

fun run_effects ::
  "(auth_ctx \<Rightarrow> callback_state \<Rightarrow> callback_state) \<Rightarrow> callback_state \<Rightarrow> auth_ctx list \<Rightarrow> callback_state" where
  "run_effects eff st [] = st"
| "run_effects eff st (c # cs) = run_effects eff (eff c st) cs"

section \<open>The route gate\<close>

text \<open>
  The pages of the application, and what \<^verbatim>\<open>Main\<close> can return: the loading indicator, a
  page, or (router version) a \<^verbatim>\<open><Navigate to=... replace />\<close> element.
\<close>

datatype page =
    LoginPage | AuthCallback | ResetPasswordPage
  | StudentProfilePage
  | DashboardPage | ScholarshipPage | MatchingPage | CareerForecasterPage
  | CompareCollegesPage | StudentVuePage | ReportPage | ProfilePage

text \<open>
  A location is the list of the segments of its pathname (\<^verbatim>\<open>/auth/callback\<close> is
  \<open>[''auth'', ''callback'']\<close>). A route pattern is a list of static segments and
  \<^verbatim>\<open>:name\<close> parameters; a parameter matches any one non-empty segment. The route
  \<^verbatim>\<open>path="*"\<close>, which every table ends with, is the table's fallback. The static routes
  of each table are pairwise disjoint, so taking the first match in the order written
  agrees with the router's ranking.
\<close>

type_synonym path = "string list"

datatype segment = Static string | Param string

datatype element = LoadingIndicator | Show page | Navigate path

fun matches :: "segment list \<Rightarrow> path \<Rightarrow> bool" where
  "matches [] [] = True"
| "matches (Static s # ps) (x # xs) = (s = x \<and> matches ps xs)"
| "matches (Param n # ps) (x # xs) = (x \<noteq> [] \<and> matches ps xs)"
| "matches _ _ = False"

fun Routes :: "(segment list \<times> page) list \<Rightarrow> path \<Rightarrow> path \<Rightarrow> element" where
  "Routes [] fallback p = Navigate fallback"
| "Routes ((pat, pg) # rs) fallback p = (if matches pat p then Show pg else Routes rs fallback p)"

definition unauthenticated_routes :: "(segment list \<times> page) list" where
  "unauthenticated_routes =
     [([Static ''auth'', Static ''callback''], AuthCallback),
      ([Static ''login''], LoginPage),
      ([Static ''reset-password''], ResetPasswordPage)]"

definition incomplete_routes :: "(segment list \<times> page) list" where
  "incomplete_routes = [([Static ''student-profile''], StudentProfilePage)]"

definition complete_routes :: "(segment list \<times> page) list" where
  "complete_routes =
     [([Static ''dashboard''], DashboardPage),
      ([Static ''student-profile''], StudentProfilePage),
      ([Static ''scholarships''], ScholarshipPage),
      ([Static ''matching''], MatchingPage),
      ([Static ''forecaster''], CareerForecasterPage),
      ([Static ''compare''], CompareCollegesPage),
      ([Static ''studentvue''], StudentVuePage),
      ([Static ''report'', Param ''collegeId''], ReportPage),
      ([Static ''profile'', Param ''collegeId''], ProfilePage)]"

text \<open>\<^verbatim>\<open>Main\<close> of the router version of \<^verbatim>\<open>App.js\<close>, at a location.\<close>

definition Main_router :: "auth_ctx \<Rightarrow> path \<Rightarrow> element" where
  "Main_router c p =
     (if ctx_loading c then LoadingIndicator
      else if ctx_user c = None then Routes unauthenticated_routes [''login''] p
      else if \<not> ctx_isProfileComplete c then Routes incomplete_routes [''student-profile''] p
      else Routes complete_routes [''dashboard''] p)"

text \<open>
  A \<^verbatim>\<open>Navigate\<close> element replaces the location and \<^verbatim>\<open>Main\<close> renders again there. The
  number bounds how many redirects are followed; \<open>None\<close> is a redirect chain longer than
  that.
\<close>

fun displayed :: "nat \<Rightarrow> auth_ctx \<Rightarrow> path \<Rightarrow> element option" where
  "displayed 0 c p = None"
| "displayed (Suc n) c p =
     (case Main_router c p of Navigate target \<Rightarrow> displayed n c target | e \<Rightarrow> Some e)"









section \<open>JavaScript values\<close>

text \<open>
  The values that cross the API boundary are JSON values. Numbers are restricted to
  integers (floating point is outside this embedding). An object is the list of its
  properties; the first binding of a name is the one that counts.
\<close>

datatype jsval =
    JUndefined | JNull | JBool bool | JNum int | JStr string
  | JArr "jsval list" | JObj "(string \<times> jsval) list"

text \<open>A thrown \<^verbatim>\<open>Error\<close> object; only its \<^verbatim>\<open>message\<close> is ever read.\<close>

datatype js_error = Error (message: string)

fun truthy :: "jsval \<Rightarrow> bool" where
  "truthy JUndefined = False"
| "truthy JNull = False"
| "truthy (JBool b) = b"
| "truthy (JNum n) = (n \<noteq> 0)"
| "truthy (JStr s) = (s \<noteq> [])"
| "truthy (JArr xs) = True"
| "truthy (JObj kvs) = True"

definition digit_char :: "nat \<Rightarrow> char" where
  "digit_char d =
     (if d = 0 then CHR ''0'' else if d = 1 then CHR ''1'' else if d = 2 then CHR ''2''
      else if d = 3 then CHR ''3'' else if d = 4 then CHR ''4'' else if d = 5 then CHR ''5''
      else if d = 6 then CHR ''6'' else if d = 7 then CHR ''7'' else if d = 8 then CHR ''8''
      else CHR ''9'')"

fun show_nat :: "nat \<Rightarrow> string" where
  "show_nat n = (if n < 10 then [digit_char n] else show_nat (n div 10) @ [digit_char (n mod 10)])"

declare show_nat.simps [simp del]

definition show_int :: "int \<Rightarrow> string" where
  "show_int i = (if i < 0 then CHR ''-'' # show_nat (nat (- i)) else show_nat (nat i))"

fun join_with :: "string \<Rightarrow> string list \<Rightarrow> string" where
  "join_with sep [] = []"
| "join_with sep [x] = x"
| "join_with sep (x # y # ys) = x @ sep @ join_with sep (y # ys)"

text \<open>
  \<^verbatim>\<open>String(v)\<close>, which is also what a template literal applies to \<^verbatim>\<open>${v}\<close>. An array
  joins its elements with commas, \<^verbatim>\<open>null\<close> and \<^verbatim>\<open>undefined\<close> elements giving the empty
  string. An object is converted by calling its \<^verbatim>\<open>toString\<close>: that is the inherited
  method unless the object has a property of that name, and a property of a JSON object
  is never a function, so the conversion then throws a \<^verbatim>\<open>TypeError\<close>.
\<close>

fun js_to_string :: "jsval \<Rightarrow> js_error + string"
  and js_elements :: "jsval list \<Rightarrow> js_error + string list" where
  "js_to_string JUndefined = Inr ''undefined''"
| "js_to_string JNull = Inr ''null''"
| "js_to_string (JBool b) = Inr (if b then ''true'' else ''false'')"
| "js_to_string (JNum n) = Inr (show_int n)"
| "js_to_string (JStr s) = Inr s"
| "js_to_string (JArr xs) =
     (case js_elements xs of Inl err \<Rightarrow> Inl err | Inr ss \<Rightarrow> Inr (join_with '','' ss))"
| "js_to_string (JObj kvs) =
     (if map_of kvs ''toString'' \<noteq> None
      then Inl (Error ''Cannot convert object to primitive value'')
      else Inr ''[object Object]'')"
| "js_elements [] = Inr []"
| "js_elements (x # xs) =
     (case (if x = JNull \<or> x = JUndefined then Inr [] else js_to_string x) of
        Inl err \<Rightarrow> Inl err
      | Inr s \<Rightarrow> (case js_elements xs of Inl err \<Rightarrow> Inl err | Inr ss \<Rightarrow> Inr (s # ss)))"

text \<open>
  Reading a property \<^verbatim>\<open>v.name\<close>: a \<^verbatim>\<open>TypeError\<close> on \<^verbatim>\<open>null\<close> and \<^verbatim>\<open>undefined\<close>,
  \<^verbatim>\<open>undefined\<close> for a name the value does not have. The names read by this program are
  data names, never built-in properties of strings or arrays.
\<close>

definition quoted :: "string \<Rightarrow> string" where
  "quoted name = CHR 0x27 # name @ [CHR 0x27]"

fun get_prop :: "jsval \<Rightarrow> string \<Rightarrow> js_error + jsval" where
  "get_prop JUndefined name =
     Inl (Error (''Cannot read properties of undefined (reading '' @ quoted name @ '')''))"
| "get_prop JNull name =
     Inl (Error (''Cannot read properties of null (reading '' @ quoted name @ '')''))"
| "get_prop (JObj kvs) name = Inr (case map_of kvs name of None \<Rightarrow> JUndefined | Some v \<Rightarrow> v)"
| "get_prop v name = Inr JUndefined"

text \<open>
  The method call \<^verbatim>\<open>value.toString()\<close>: as \<^verbatim>\<open>String(value)\<close>, except that it cannot be
  made on \<^verbatim>\<open>null\<close> and \<^verbatim>\<open>undefined\<close>, and that on an object with a property named
  \<^verbatim>\<open>toString\<close> the error is that the property is not a function.
\<close>

definition toString_call :: "jsval \<Rightarrow> js_error + string" where
  "toString_call v =
     (case v of
        JUndefined \<Rightarrow> Inl (Error (''Cannot read properties of undefined (reading '' @ quoted ''toString'' @ '')''))
      | JNull \<Rightarrow> Inl (Error (''Cannot read properties of null (reading '' @ quoted ''toString'' @ '')''))
      | JObj kvs \<Rightarrow>
          if map_of kvs ''toString'' \<noteq> None
          then Inl (Error ''value.toString is not a function'')
          else Inr ''[object Object]''
      | _ \<Rightarrow> js_to_string v)"

text \<open>\<^verbatim>\<open>v?.name\<close>: \<^verbatim>\<open>undefined\<close> on \<^verbatim>\<open>null\<close> and \<^verbatim>\<open>undefined\<close>, never an error.\<close>

definition get_prop_opt :: "jsval \<Rightarrow> string \<Rightarrow> jsval" where
  "get_prop_opt v name = (case get_prop v name of Inl _ \<Rightarrow> JUndefined | Inr x \<Rightarrow> x)"

text \<open>\<^verbatim>\<open>s.includes(sub)\<close>.\<close>

fun starts_with :: "string \<Rightarrow> string \<Rightarrow> bool" where
  "starts_with s [] = True"
| "starts_with [] (c # cs) = False"
| "starts_with (x # xs) (c # cs) = (x = c \<and> starts_with xs cs)"

fun str_includes :: "string \<Rightarrow> string \<Rightarrow> bool" where
  "str_includes [] sub = (sub = [])"
| "str_includes (x # xs) sub = (starts_with (x # xs) sub \<or> str_includes xs sub)"

section \<open>The API client\<close>

text \<open>
  What the client sees of the world: the build-time variable \<^verbatim>\<open>REACT_APP_API_URL\<close>, the
  outcome of \<^verbatim>\<open>supabase.auth.getSession()\<close> (\<open>Inl\<close> when the promise rejects), and the
  answer of \<^verbatim>\<open>fetch\<close> to each request (\<open>Inl\<close> when the promise rejects, as on a network
  failure). A request's body is the value handed to \<^verbatim>\<open>JSON.stringify\<close>; the text of
  \<^verbatim>\<open>encodeURIComponent(JSON.stringify(v))\<close> is given by the environment.
\<close>

record session =
  access_token :: "string option"
  session_user :: user

record request =
  req_url :: string
  req_method :: "string option"
  req_headers :: "string \<rightharpoonup> string"
  req_body :: "jsval option"

record http_response =
  resp_ok :: bool
  resp_status :: nat
  resp_json :: "js_error + jsval"

record api_env =
  env_api_url :: "string option"
  env_getSession :: "js_error + session option"
  env_fetch :: "request \<Rightarrow> js_error + http_response"
  env_encode :: "jsval \<Rightarrow> string"

record options =
  opt_method :: "string option"
  opt_body :: "jsval option"
  opt_headers :: "(string \<rightharpoonup> string) option"

definition no_options :: options where
  "no_options = \<lparr> opt_method = None, opt_body = None, opt_headers = None \<rparr>"

text \<open>
  An asynchronous call yields the requests it sent, oldest first, and how its promise
  settled: \<open>Inl\<close> rejected, \<open>Inr\<close> resolved.
\<close>

type_synonym 'a io = "request list \<times> (js_error + 'a)"

definition API_BASE_URL :: "api_env \<Rightarrow> string" where
  "API_BASE_URL e = or_else (env_api_url e) ''/api''"

definition json_headers :: "string \<rightharpoonup> string" where
  "json_headers = [''Content-Type'' \<mapsto> ''application/json'']"

definition bearer_headers :: "string \<Rightarrow> string \<rightharpoonup> string" where
  "bearer_headers token =
     [''Content-Type'' \<mapsto> ''application/json'', ''Authorization'' \<mapsto> ''Bearer '' @ token]"

text \<open>\<^verbatim>\<open>session?.access_token\<close>.\<close>

definition session_token :: "session option \<Rightarrow> string option" where
  "session_token s = (case s of None \<Rightarrow> None | Some x \<Rightarrow> access_token x)"

subsection \<open>\<^verbatim>\<open>src/services/api.js\<close>\<close>

definition getAuthHeaders :: "api_env \<Rightarrow> js_error + (string \<rightharpoonup> string)" where
  "getAuthHeaders e =
     (case (case env_getSession e of
              Inl err \<Rightarrow> Inl err
            | Inr s \<Rightarrow>
                let token = session_token s
                in if \<not> truthy_str token
                   then Inl (Error ''Authentication token not found. Please log in again.'')
                   else Inr (bearer_headers (the token)))
      of Inl error \<Rightarrow> Inl (Error ''Authentication failed. Please log in again.'')
       | Inr headers \<Rightarrow> Inr headers)"

text \<open>
  The part of \<^verbatim>\<open>makeRequest\<close> after the headers are known, shared by both versions of
  the file: send the request, turn a response that is not \<^verbatim>\<open>ok\<close> into an error, parse
  the body of one that is.
\<close>

definition build_request :: "api_env \<Rightarrow> string \<Rightarrow> options \<Rightarrow> (string \<rightharpoonup> string) \<Rightarrow> request" where
  "build_request e endpoint opts headers =
     \<lparr> req_url = API_BASE_URL e @ endpoint, req_method = opt_method opts,
       req_headers = headers ++ (case opt_headers opts of None \<Rightarrow> Map.empty | Some h \<Rightarrow> h),
       req_body = opt_body opts \<rparr>"

definition send_request :: "api_env \<Rightarrow> string \<Rightarrow> options \<Rightarrow> (string \<rightharpoonup> string) \<Rightarrow> jsval io" where
  "send_request e endpoint opts headers =
     (let req = build_request e endpoint opts headers
      in case env_fetch e req of
           Inl err \<Rightarrow> ([req], Inl err)
         | Inr response \<Rightarrow>
             if \<not> resp_ok response
             then (let errorData = (case resp_json response of Inl _ \<Rightarrow> JObj [] | Inr v \<Rightarrow> v)
                   in case get_prop errorData ''error'' of
                        Inl err \<Rightarrow> ([req], Inl err)
                      | Inr m \<Rightarrow>
                          (case js_to_string
                                  (if truthy m then m
                                   else JStr (''HTTP error! status: '' @ show_nat (resp_status response))) of
                             Inl err \<Rightarrow> ([req], Inl err)
                           | Inr msg \<Rightarrow> ([req], Inl (Error msg))))
             else ([req], resp_json response))"

definition makeRequest :: "api_env \<Rightarrow> string \<Rightarrow> options \<Rightarrow> bool \<Rightarrow> jsval io" where
  "makeRequest e endpoint opts requireAuth =
     (case (if requireAuth then getAuthHeaders e else Inr json_headers) of
        Inl err \<Rightarrow> ([], Inl err)
      | Inr headers \<Rightarrow> send_request e endpoint opts headers)"

definition getProfile :: "api_env \<Rightarrow> string \<Rightarrow> jsval io" where
  "getProfile e userId =
     (case makeRequest e (''/profile/'' @ userId) no_options True of
        (sent, Inr v) \<Rightarrow> (sent, Inr v)
      | (sent, Inl error) \<Rightarrow>
          if str_includes (message error) ''404'' then (sent, Inr JNull) else (sent, Inl error))"

definition createProfile :: "api_env \<Rightarrow> string \<Rightarrow> jsval \<Rightarrow> jsval io" where
  "createProfile e userId profileData =
     makeRequest e ''/profile''
       \<lparr> opt_method = Some ''POST'',
         opt_body = Some (JObj [(''userId'', JStr userId), (''profileData'', profileData)]),
         opt_headers = None \<rparr> True"

definition updateProfile :: "api_env \<Rightarrow> string \<Rightarrow> jsval \<Rightarrow> jsval io" where
  "updateProfile e userId profileData =
     makeRequest e (''/profile/'' @ userId)
       \<lparr> opt_method = Some ''PUT'',
         opt_body = Some (JObj [(''profileData'', profileData)]),
         opt_headers = None \<rparr> True"

definition getScholarshipStats :: "api_env \<Rightarrow> jsval \<Rightarrow> jsval io" where
  "getScholarshipStats e studentProfile =
     (case makeRequest e (''/scholarships/stats?studentProfile='' @ env_encode e studentProfile) no_options False of
        (sent, Inr v) \<Rightarrow> (sent, Inr v)
      | (sent, Inl error) \<Rightarrow> (sent, Inl error))"

subsection \<open>The second version of \<^verbatim>\<open>api.js\<close>, used by the dashboard\<close>

definition getAuthHeaders_p6 :: "api_env \<Rightarrow> js_error + (string \<rightharpoonup> string)" where
  "getAuthHeaders_p6 e =
     (case env_getSession e of
        Inl err \<Rightarrow> Inl err
      | Inr s \<Rightarrow>
          let token = session_token s
          in if \<not> truthy_str token
             then Inl (Error ''Authentication token not found.'')
             else Inr (bearer_headers (the token)))"

definition makeRequest_p6 :: "api_env \<Rightarrow> string \<Rightarrow> options \<Rightarrow> bool \<Rightarrow> jsval io" where
  "makeRequest_p6 e endpoint opts requireAuth =
     (case (if requireAuth
            then (case getAuthHeaders_p6 e of
                    Inl authError \<Rightarrow> Inl (Error ''Authentication required. Please log in again.'')
                  | Inr h \<Rightarrow> Inr h)
            else Inr json_headers) of
        Inl err \<Rightarrow> ([], Inl err)
      | Inr headers \<Rightarrow> send_request e endpoint opts headers)"

text \<open>
  \<^verbatim>\<open>userId ? `?userId=${userId}` : ''\<close>, which the functions below evaluate inside
  their \<^verbatim>\<open>try\<close>.
\<close>

definition userId_params :: "jsval \<Rightarrow> js_error + string" where
  "userId_params userId =
     (if truthy userId
      then (case js_to_string userId of Inl err \<Rightarrow> Inl err | Inr s \<Rightarrow> Inr (''?userId='' @ s))
      else Inr [])"


definition getScholarshipStats_p6 :: "api_env \<Rightarrow> jsval \<Rightarrow> jsval io" where
  "getScholarshipStats_p6 e userId =
     (case userId_params userId of
        Inl error \<Rightarrow>
          ([], Inr (JObj [(''totalEligibleAmount'', JNum 0), (''opportunities'', JArr [])]))
      | Inr params \<Rightarrow>
          (case makeRequest_p6 e (''/dashboard/scholarship-stats'' @ params) no_options False of
             (sent, Inr v) \<Rightarrow> (sent, Inr v)
           | (sent, Inl error) \<Rightarrow>
               (sent, Inr (JObj [(''totalEligibleAmount'', JNum 0), (''opportunities'', JArr [])]))))"


definition updateProfile_p6 :: "api_env \<Rightarrow> string \<Rightarrow> jsval \<Rightarrow> jsval io" where
  "updateProfile_p6 e userId profileData =
     makeRequest_p6 e (''/profile/'' @ userId)
       \<lparr> opt_method = Some ''PUT'',
         opt_body = Some (JObj [(''profileData'', profileData)]),
         opt_headers = None \<rparr> True"




section \<open>The dashboard's data load\<close>

text \<open>
  The state of \<^verbatim>\<open>DashboardPage\<close> that \<^verbatim>\<open>loadDashboardData\<close> writes: one cell per section,
  the \<^verbatim>\<open>loading\<close> flag and the \<^verbatim>\<open>errors\<close> object.
\<close>

record dashboard =
  d_collegeMatches :: jsval
  d_scholarshipStats :: jsval
  d_scholarshipSummary :: jsval
  d_upcomingDeadlines :: jsval
  d_userStats :: jsval
  d_nextStepsData :: jsval
  d_loading :: bool
  d_errors :: "string \<rightharpoonup> string"


text \<open>The API functions the page imports, each with the outcome of its promise.\<close>

record dashboard_api =
  api_getTopMatches :: "jsval \<Rightarrow> js_error + jsval"
  api_getScholarshipStats :: "jsval \<Rightarrow> js_error + jsval"
  api_getScholarshipSummary :: "jsval \<Rightarrow> js_error + jsval"
  api_getUpcomingDeadlines :: "int \<Rightarrow> js_error + jsval"
  api_getUserStats :: "string \<Rightarrow> js_error + jsval"
  api_getNextStepsData :: "jsval \<Rightarrow> jsval \<Rightarrow> jsval \<Rightarrow> jsval \<Rightarrow> js_error + jsval"


text \<open>
  \<^verbatim>\<open>v?.slice(0, n)\<close>: \<^verbatim>\<open>undefined\<close> on \<^verbatim>\<open>null\<close> and \<^verbatim>\<open>undefined\<close>, the first \<open>n\<close> elements
  of an array or characters of a string, a \<^verbatim>\<open>TypeError\<close> on anything else.
\<close>

fun slice_front :: "jsval \<Rightarrow> nat \<Rightarrow> js_error + jsval" where
  "slice_front JUndefined n = Inr JUndefined"
| "slice_front JNull n = Inr JUndefined"
| "slice_front (JArr xs) n = Inr (JArr (take n xs))"
| "slice_front (JStr s) n = Inr (JStr (take n s))"
| "slice_front v n = Inl (Error ''slice is not a function'')"

text \<open>\<^verbatim>\<open>response.key?.slice(0, n) || []\<close>\<close>

definition front_or_empty :: "jsval \<Rightarrow> string \<Rightarrow> nat \<Rightarrow> js_error + jsval" where
  "front_or_empty response key n =
     (case get_prop response key of
        Inl err \<Rightarrow> Inl err
      | Inr v \<Rightarrow> (case slice_front v n of
                    Inl err \<Rightarrow> Inl err
                  | Inr r \<Rightarrow> Inr (if truthy r then r else JArr [])))"

datatype slot =
    CollegeMatches | ScholarshipStats | ScholarshipSummary | Deadlines | UserStats | NextSteps






text \<open>\<^verbatim>\<open>user?.id\<close> is truthy.\<close>

definition has_id :: "user option \<Rightarrow> bool" where
  "has_id usr = (case usr of None \<Rightarrow> False | Some u \<Rightarrow> user_id u \<noteq> [])"


text \<open>
  The attempt of each section as a function of the inputs, for stating what the load does:
  \<open>None\<close> is a fetch that is not made.
\<close>

definition local_of :: "js_error + jsval \<Rightarrow> jsval \<Rightarrow> jsval" where
  "local_of attempt initial = (case attempt of Inr v \<Rightarrow> v | Inl error \<Rightarrow> initial)"

definition matches_attempt :: "dashboard_api \<Rightarrow> jsval \<Rightarrow> js_error + jsval" where
  "matches_attempt api profile =
     (case api_getTopMatches api (get_prop_opt profile ''userId'') of
        Inl err \<Rightarrow> Inl err
      | Inr matchesResponse \<Rightarrow> front_or_empty matchesResponse ''results'' 3)"

definition deadlines_attempt :: "dashboard_api \<Rightarrow> js_error + jsval" where
  "deadlines_attempt api =
     (case api_getUpcomingDeadlines api 30 of
        Inl err \<Rightarrow> Inl err
      | Inr deadlinesResponse \<Rightarrow> front_or_empty deadlinesResponse ''deadlines'' 2)"

definition userStats_attempt :: "dashboard_api \<Rightarrow> user option \<Rightarrow> (js_error + jsval) option" where
  "userStats_attempt api usr =
     (if has_id usr then Some (api_getUserStats api (user_id (the usr))) else None)"

fun attempt :: "dashboard_api \<Rightarrow> jsval \<Rightarrow> user option \<Rightarrow> slot \<Rightarrow> (js_error + jsval) option" where
  "attempt api profile usr CollegeMatches = Some (matches_attempt api profile)"
| "attempt api profile usr ScholarshipStats =
     Some (api_getScholarshipStats api (get_prop_opt profile ''userId''))"
| "attempt api profile usr ScholarshipSummary = Some (api_getScholarshipSummary api profile)"
| "attempt api profile usr Deadlines = Some (deadlines_attempt api)"
| "attempt api profile usr UserStats = userStats_attempt api usr"
| "attempt api profile usr NextSteps =
     Some (api_getNextStepsData api profile
             (local_of (matches_attempt api profile) (JArr []))
             (local_of (deadlines_attempt api) (JArr []))
             (JObj [(''summary'', local_of (api_getScholarshipSummary api profile) (JObj [])),
                    (''userStats'', (case userStats_attempt api usr of
                                       None \<Rightarrow> JObj []
                                     | Some a \<Rightarrow> local_of a (JObj [])))]))"

definition failed :: "dashboard_api \<Rightarrow> jsval \<Rightarrow> user option \<Rightarrow> slot \<Rightarrow> bool" where
  "failed api profile usr sec = (case attempt api profile usr sec of Some (Inl err) \<Rightarrow> True | _ \<Rightarrow> False)"


section \<open>The profile reconciler\<close>

text \<open>
  The second effect of \<^verbatim>\<open>AuthProvider\<close> (\<^verbatim>\<open>src/contexts/AuthContext.js\<close>), run whenever the
  user changes. Its outcome: the requests sent, in order, and the values given to
  \<^verbatim>\<open>setProfile\<close> and \<^verbatim>\<open>setIsProfileComplete\<close>.
\<close>

record reconciled =
  rc_sent :: "request list"
  rc_profile :: jsval
  rc_isProfileComplete :: bool

text \<open>A string that may be \<^verbatim>\<open>undefined\<close>, as a value.\<close>

definition js_of_opt :: "string option \<Rightarrow> jsval" where
  "js_of_opt v = (case v of None \<Rightarrow> JUndefined | Some s \<Rightarrow> JStr s)"

definition newProfileData :: "user \<Rightarrow> jsval" where
  "newProfileData u =
     JObj [(''email'', JStr (user_email u)),
           (''fullName'', js_of_opt (full_name u)),
           (''avatarUrl'', js_of_opt (avatar_url u)),
           (''provider'', JStr (or_else (provider u) ''email'')),
           (''gpa'', JNull),
           (''major'', JNull),
           (''graduationYear'', JNull)]"

text \<open>\<^verbatim>\<open>!!userProfile?.gpa\<close>, the completeness flag that gates navigation.\<close>

definition isProfileComplete :: "jsval \<Rightarrow> bool" where
  "isProfileComplete userProfile = truthy (get_prop_opt userProfile ''gpa'')"

definition manageUserProfile :: "api_env \<Rightarrow> user option \<Rightarrow> reconciled" where
  "manageUserProfile e usr =
     (case usr of
        None \<Rightarrow> \<lparr> rc_sent = [], rc_profile = JNull, rc_isProfileComplete = False \<rparr>
      | Some u \<Rightarrow>
          (case getProfile e (user_id u) of
             (s1, Inl error) \<Rightarrow>
               \<lparr> rc_sent = s1, rc_profile = JNull, rc_isProfileComplete = False \<rparr>
           | (s1, Inr userProfile) \<Rightarrow>
               if \<not> truthy userProfile
               then (case createProfile e (user_id u) (newProfileData u) of
                       (s2, Inl error) \<Rightarrow>
                         \<lparr> rc_sent = s1 @ s2, rc_profile = JNull, rc_isProfileComplete = False \<rparr>
                     | (s2, Inr created) \<Rightarrow>
                         \<lparr> rc_sent = s1 @ s2, rc_profile = created,
                           rc_isProfileComplete = isProfileComplete created \<rparr>)
               else \<lparr> rc_sent = s1, rc_profile = userProfile,
                      rc_isProfileComplete = isProfileComplete userProfile \<rparr>))"

section \<open>The identity-provider client\<close>

text \<open>
  The operations of \<^verbatim>\<open>supabase.auth\<close> that the application calls. A client is what these
  operations answer: the outcome of \<^verbatim>\<open>getSession()\<close> (with \<^verbatim>\<open>data.session\<close> taken out),
  and for every other operation the outcome of the call on its argument, \<open>Inl\<close> when the
  call throws or its promise rejects, \<open>Inr\<close> the \<^verbatim>\<open>{ data, error }\<close> object it resolves to.
\<close>

datatype auth_op =
    SignInWithPassword | SignUp | SignOut | SignInWithOAuth
  | ResetPasswordForEmail | SignInWithOtp | VerifyOtp | UpdateUser

record client =
  cl_getSession :: "js_error + session option"
  cl_call :: "auth_op \<Rightarrow> jsval list \<Rightarrow> js_error + jsval"

definition not_configured :: jsval where
  "not_configured = JObj [(''error'', JObj [(''message'', JStr ''Supabase not configured'')])]"

text \<open>
  The object literal used when the configuration is absent. It has no \<^verbatim>\<open>updateUser\<close>;
  calling that is a \<^verbatim>\<open>TypeError\<close>.
\<close>

definition mock_client :: client where
  "mock_client =
     \<lparr> cl_getSession = Inr None,
       cl_call = (\<lambda>op args.
          if op = UpdateUser then Inl (Error ''supabase.auth.updateUser is not a function'')
          else Inr not_configured) \<rparr>"

text \<open>
  Module initialisation reads \<^verbatim>\<open>process.env.REACT_APP_SUPABASE_URL\<close> and
  \<^verbatim>\<open>process.env.REACT_APP_SUPABASE_ANON_KEY\<close> and calls the library's \<^verbatim>\<open>createClient\<close>,
  which is a parameter here. \<open>Inl\<close> is the module throwing while it loads; every module
  that imports it then fails to load too.
\<close>

record env_vars =
  REACT_APP_SUPABASE_URL :: "string option"
  REACT_APP_SUPABASE_ANON_KEY :: "string option"

text \<open>\<^verbatim>\<open>src/utils/supabase.js\<close>.\<close>

definition supabase :: "env_vars \<Rightarrow> (string \<Rightarrow> string \<Rightarrow> js_error + client) \<Rightarrow> js_error + client" where
  "supabase env createClient =
     (let supabaseUrl = REACT_APP_SUPABASE_URL env;
          supabaseKey = REACT_APP_SUPABASE_ANON_KEY env
      in if \<not> truthy_str supabaseUrl \<or> \<not> truthy_str supabaseKey
         then Inl (Error ''Supabase environment variables (REACT_APP_SUPABASE_URL and REACT_APP_SUPABASE_ANON_KEY) are not set.'')
         else createClient (the supabaseUrl) (the supabaseKey))"

text \<open>The version of \<^verbatim>\<open>supabase.js\<close> with the mock client.\<close>

definition supabase_p9 :: "env_vars \<Rightarrow> (string \<Rightarrow> string \<Rightarrow> js_error + client) \<Rightarrow> js_error + client" where
  "supabase_p9 env createClient =
     (let supabaseUrl = REACT_APP_SUPABASE_URL env;
          supabaseAnonKey = REACT_APP_SUPABASE_ANON_KEY env
      in case (if truthy_str supabaseUrl \<and> truthy_str supabaseAnonKey
               then createClient (the supabaseUrl) (the supabaseAnonKey)
               else Inr mock_client) of
           Inl error \<Rightarrow> Inr mock_client
         | Inr c \<Rightarrow> Inr c)"

section \<open>The Session Store\<close>

text \<open>
  The first effect of \<^verbatim>\<open>AuthProvider\<close>: \<^verbatim>\<open>getInitialSession\<close> sets the user from the
  stored session, or to \<^verbatim>\<open>null\<close> when reading it fails, and clears \<^verbatim>\<open>loading\<close>. The
  completeness flag is at its initial value, false.
\<close>

definition getInitialSession :: "client \<Rightarrow> auth_ctx" where
  "getInitialSession c =
     (case cl_getSession c of
        Inr s \<Rightarrow> \<lparr> ctx_loading = False,
                   ctx_user = (case s of None \<Rightarrow> None | Some x \<Rightarrow> Some (session_user x)),
                   ctx_isProfileComplete = False \<rparr>
      | Inl error \<Rightarrow> \<lparr> ctx_loading = False, ctx_user = None, ctx_isProfileComplete = False \<rparr>)"

text \<open>
  The operations handed out through the context. Each yields the labels it wrote with
  \<^verbatim>\<open>console.error\<close> and how its promise settled. \<^verbatim>\<open>{ ...data, k: v }\<close> puts the new
  binding in front of the properties of \<^verbatim>\<open>data\<close>: those of an object, the indexed
  elements of an array or characters of a string, none for any other value.
\<close>

type_synonym 'a logged = "string list \<times> (js_error + 'a)"



text \<open>\<^verbatim>\<open>try { return await call } catch (error) { console.error(label, error); throw error; }\<close>\<close>

definition log_and_rethrow :: "string \<Rightarrow> js_error + jsval \<Rightarrow> jsval logged" where
  "log_and_rethrow label r = (case r of Inl error \<Rightarrow> ([label], Inl error) | Inr v \<Rightarrow> ([], Inr v))"

definition signIn :: "client \<Rightarrow> jsval \<Rightarrow> jsval logged" where
  "signIn c data = log_and_rethrow ''Sign in error:'' (cl_call c SignInWithPassword [data])"

















section \<open>Profile completeness on the dashboard\<close>

text \<open>
  \<^verbatim>\<open>s.trim()\<close> removes white space at both ends. Characters are code units below 256;
  the white space among them is tab, line feed, vertical tab, form feed, carriage return,
  space and no-break space.
\<close>

definition is_space :: "char \<Rightarrow> bool" where
  "is_space c = (of_char c \<in> {9, 10, 11, 12, 13, 32, 160 :: nat})"

definition trim :: "string \<Rightarrow> string" where
  "trim s = rev (dropWhile is_space (rev (dropWhile is_space s)))"

definition requiredFields :: "string list" where
  "requiredFields = [''gpa'', ''satScore'', ''gradeLevel'', ''extracurriculars'', ''career_goals'']"

text \<open>
  The filter's test, \<^verbatim>\<open>value && value.toString().trim() !== '' && value !== 'N/A'\<close>, on
  \<^verbatim>\<open>value = profile[field]\<close>. It is evaluated only for a truthy profile, on which reading a
  property cannot fail; \<^verbatim>\<open>toString\<close> is called only on a truthy value, and may throw.
\<close>

definition field_completed :: "jsval \<Rightarrow> string \<Rightarrow> js_error + bool" where
  "field_completed profile field =
     (let v = get_prop_opt profile field
      in if \<not> truthy v then Inr False
         else (case toString_call v of
                 Inl err \<Rightarrow> Inl err
               | Inr s \<Rightarrow> Inr (trim s \<noteq> [] \<and> v \<noteq> JStr ''N/A'')))"

text \<open>
  \<^verbatim>\<open>requiredFields.filter(...)\<close>: the fields are tested in order, and an exception in one
  test ends the whole call.
\<close>

fun filter_fields :: "jsval \<Rightarrow> string list \<Rightarrow> js_error + string list" where
  "filter_fields profile [] = Inr []"
| "filter_fields profile (f # fs) =
     (case field_completed profile f of
        Inl err \<Rightarrow> Inl err
      | Inr keep \<Rightarrow>
          (case filter_fields profile fs of
             Inl err \<Rightarrow> Inl err
           | Inr rest \<Rightarrow> Inr (if keep then f # rest else rest)))"

text \<open>
  \<^verbatim>\<open>Math.round((k / n) * 100)\<close> for counts \<open>k \<le> n\<close>: the nearest integer, halves upward.
\<close>

definition round_percent :: "nat \<Rightarrow> nat \<Rightarrow> nat" where
  "round_percent k n = (200 * k + n) div (2 * n)"

definition calculateProfileCompleteness :: "jsval \<Rightarrow> js_error + nat" where
  "calculateProfileCompleteness profile =
     (if \<not> truthy profile then Inr 0
      else (case filter_fields profile requiredFields of
              Inl err \<Rightarrow> Inl err
            | Inr completedFields \<Rightarrow>
                Inr (round_percent (length completedFields) (length requiredFields))))"

section \<open>Predicates used to state the properties\<close>

text \<open>The current session holds an access token (a non-empty string).\<close>

definition has_token :: "api_env \<Rightarrow> bool" where
  "has_token e = (case env_getSession e of Inl _ \<Rightarrow> False | Inr s \<Rightarrow> truthy_str (session_token s))"

text \<open>
  A request fails: \<^verbatim>\<open>fetch\<close> rejects, or the response is not \<^verbatim>\<open>ok\<close>, or its body does
  not parse.
\<close>

definition request_fails :: "api_env \<Rightarrow> request \<Rightarrow> bool" where
  "request_fails e req =
     (case env_fetch e req of Inl _ \<Rightarrow> True | Inr r \<Rightarrow> \<not> resp_ok r \<or> isl (resp_json r))"




section \<open>Concrete inputs used in the examples\<close>

definition example_user :: user where
  "example_user = \<lparr> user_id = ''u1'', user_email = ''a@b.c'', full_name = Some ''Ada'',
                     avatar_url = None, provider = Some ''google'' \<rparr>"

definition loading_ctx :: auth_ctx where
  "loading_ctx = \<lparr> ctx_loading = True, ctx_user = None, ctx_isProfileComplete = False \<rparr>"

definition signed_out_ctx :: auth_ctx where
  "signed_out_ctx = \<lparr> ctx_loading = False, ctx_user = None, ctx_isProfileComplete = False \<rparr>"

definition signed_in_ctx :: auth_ctx where
  "signed_in_ctx = \<lparr> ctx_loading = False, ctx_user = Some example_user, ctx_isProfileComplete = True \<rparr>"

definition denied_params :: url_params where
  "denied_params = [(''error'', ''access_denied''), (''error_description'', ''User denied access'')]"


definition example_session :: session where
  "example_session = \<lparr> access_token = Some ''tok'', session_user = example_user \<rparr>"

definition env_with :: "js_error + session option \<Rightarrow> (request \<Rightarrow> js_error + http_response) \<Rightarrow> api_env" where
  "env_with s f = \<lparr> env_api_url = None, env_getSession = s, env_fetch = f, env_encode = (\<lambda>v. ''%7B%7D'') \<rparr>"

definition fetch_rejects :: "request \<Rightarrow> js_error + http_response" where
  "fetch_rejects req = Inl (Error ''Failed to fetch'')"

definition fetch_status :: "nat \<Rightarrow> jsval \<Rightarrow> request \<Rightarrow> js_error + http_response" where
  "fetch_status n body req =
     Inr \<lparr> resp_ok = (200 \<le> n \<and> n < 300), resp_status = n, resp_json = Inr body \<rparr>"

definition no_env :: env_vars where
  "no_env = \<lparr> REACT_APP_SUPABASE_URL = None, REACT_APP_SUPABASE_ANON_KEY = None \<rparr>"


definition rejecting_client :: client where
  "rejecting_client =
     \<lparr> cl_getSession = Inr None,
       cl_call = (\<lambda>op args. Inr (JObj [(''data'', JNull),
                                        (''error'', JObj [(''message'', JStr ''Invalid login credentials'')])])) \<rparr>"

definition credentials :: jsval where
  "credentials = JObj [(''email'', JStr ''a@b.c''), (''password'', JStr ''secret'')]"

definition full_profile :: jsval where
  "full_profile =
     JObj [(''userId'', JStr ''u1''), (''gpa'', JStr ''3.8''), (''satScore'', JNum 1400),
           (''gradeLevel'', JStr ''12''), (''extracurriculars'', JArr [JStr ''chess'', JStr ''band'']),
           (''career_goals'', JStr ''engineer'')]"



section \<open>Properties of the OAuth callback page\<close>

lemma run_effects_append:
  "run_effects eff st (cs @ ds) = run_effects eff (run_effects eff st cs) ds"
  by (induction cs arbitrary: st) simp_all

lemma run_effects_router_loading:
  "\<forall>c \<in> set cs. ctx_loading c \<Longrightarrow> run_effects (AuthCallback_router_effect loc) st cs = st"
  by (induction cs arbitrary: st) (simp_all add: AuthCallback_router_effect_def)

lemma run_effects_views_loading:
  "\<forall>c \<in> set cs. ctx_loading c \<Longrightarrow> run_effects (AuthCallback_views_effect loc) st cs = st"
  by (induction cs arbitrary: st) (simp_all add: AuthCallback_views_effect_def)

lemma run_effects_router_last:
  "\<forall>c \<in> set cs. ctx_loading c \<Longrightarrow>
   run_effects (AuthCallback_router_effect loc) st (cs @ [d]) = AuthCallback_router_effect loc d st"
  by (simp add: run_effects_append run_effects_router_loading)

lemma run_effects_views_last:
  "\<forall>c \<in> set cs. ctx_loading c \<Longrightarrow>
   run_effects (AuthCallback_views_effect loc) st (cs @ [d]) = AuthCallback_views_effect loc d st"
  by (simp add: run_effects_append run_effects_views_loading)

text \<open>
  Claim C5. While the context's \<^verbatim>\<open>loading\<close> flag is true the callback page does nothing:
  every effect run returns at once, whatever the user and the completeness flag are (they
  are not inspected), so no error is set, nothing is navigated to and the page shows the
  "Completing Authentication" spinner. The first effect run with \<^verbatim>\<open>loading\<close> false decides:
  without an error parameter, a present user is routed onward (dashboard or student
  profile, by completeness) and an absent user gives the authentication-failure message.
  This holds in the router version and in the view-switch version.
\<close>

theorem callback_waits_while_loading:
  assumes "\<forall>c \<in> set cs. ctx_loading c"
  shows "(run_effects (AuthCallback_router_effect loc) callback_init cs = callback_init
          \<and> AuthCallback_router_render (run_effects (AuthCallback_router_effect loc) callback_init cs) = Completing
          \<and> run_effects (AuthCallback_views_effect loc) callback_init cs = callback_init
          \<and> AuthCallback_views_render (run_effects (AuthCallback_views_effect loc) callback_init cs) = Completing)
       \<and> (\<forall>u p st. AuthCallback_router_effect loc \<lparr>ctx_loading = True, ctx_user = u, ctx_isProfileComplete = p\<rparr> st = st
                 \<and> AuthCallback_views_effect loc \<lparr>ctx_loading = True, ctx_user = u, ctx_isProfileComplete = p\<rparr> st = st)
       \<and> (\<not> ctx_loading d \<and> \<not> truthy_str (params_get (hash loc) ''error'') \<longrightarrow>
            run_effects (AuthCallback_router_effect loc) callback_init (cs @ [d]) =
              (if ctx_user d \<noteq> None
               then callback_init\<lparr>cb_navigated := [if ctx_isProfileComplete d then ''/dashboard'' else ''/student-profile'']\<rparr>
               else callback_init\<lparr>cb_error := Some ''Authentication failed. Please try logging in again.''\<rparr>))
       \<and> (\<not> ctx_loading d \<and> \<not> truthy_str (params_get (search loc) ''error'') \<longrightarrow>
            run_effects (AuthCallback_views_effect loc) callback_init (cs @ [d]) =
              (if ctx_user d \<noteq> None
               then callback_init\<lparr>cb_navigated := [if ctx_isProfileComplete d then ''dashboard'' else ''studentProfile'']\<rparr>
               else callback_init\<lparr>cb_error := Some ''Authentication failed. Please try again.'', cb_authLoading := False\<rparr>))"
proof -
  have r: "run_effects (AuthCallback_router_effect loc) callback_init cs = callback_init"
    using assms by (rule run_effects_router_loading)
  have v: "run_effects (AuthCallback_views_effect loc) callback_init cs = callback_init"
    using assms by (rule run_effects_views_loading)
  have rr: "AuthCallback_router_render callback_init = Completing"
    by (simp add: AuthCallback_router_render_def callback_init_def truthy_str_def)
  have vr: "AuthCallback_views_render callback_init = Completing"
    by (simp add: AuthCallback_views_render_def callback_init_def truthy_str_def)
  have indep: "\<forall>u p st. AuthCallback_router_effect loc \<lparr>ctx_loading = True, ctx_user = u, ctx_isProfileComplete = p\<rparr> st = st
                 \<and> AuthCallback_views_effect loc \<lparr>ctx_loading = True, ctx_user = u, ctx_isProfileComplete = p\<rparr> st = st"
    by (simp add: AuthCallback_router_effect_def AuthCallback_views_effect_def)
  have rl: "run_effects (AuthCallback_router_effect loc) callback_init (cs @ [d]) =
            AuthCallback_router_effect loc d callback_init"
    using assms by (rule run_effects_router_last)
  have vl: "run_effects (AuthCallback_views_effect loc) callback_init (cs @ [d]) =
            AuthCallback_views_effect loc d callback_init"
    using assms by (rule run_effects_views_last)
  have rd: "\<not> ctx_loading d \<and> \<not> truthy_str (params_get (hash loc) ''error'') \<longrightarrow>
            AuthCallback_router_effect loc d callback_init =
              (if ctx_user d \<noteq> None
               then callback_init\<lparr>cb_navigated := [if ctx_isProfileComplete d then ''/dashboard'' else ''/student-profile'']\<rparr>
               else callback_init\<lparr>cb_error := Some ''Authentication failed. Please try logging in again.''\<rparr>)"
    by (simp add: AuthCallback_router_effect_def callback_init_def Let_def)
  have vd: "\<not> ctx_loading d \<and> \<not> truthy_str (params_get (search loc) ''error'') \<longrightarrow>
            AuthCallback_views_effect loc d callback_init =
              (if ctx_user d \<noteq> None
               then callback_init\<lparr>cb_navigated := [if ctx_isProfileComplete d then ''dashboard'' else ''studentProfile'']\<rparr>
               else callback_init\<lparr>cb_error := Some ''Authentication failed. Please try again.'', cb_authLoading := False\<rparr>)"
    by (simp add: AuthCallback_views_effect_def callback_init_def Let_def)
  show ?thesis
    unfolding r v rl vl using rr vr indep rd vd by (intro conjI) (assumption | rule refl)+
qed

theorem callback_waits_while_loading_witness:
  "ctx_loading loading_ctx
   \<and> run_effects (AuthCallback_router_effect \<lparr>search = [], hash = []\<rparr>) callback_init [loading_ctx, loading_ctx] = callback_init
   \<and> cb_error (run_effects (AuthCallback_router_effect \<lparr>search = [], hash = []\<rparr>) callback_init
                 ([loading_ctx, loading_ctx] @ [signed_out_ctx]))
       = Some ''Authentication failed. Please try logging in again.''
   \<and> cb_navigated (run_effects (AuthCallback_views_effect \<lparr>search = [], hash = []\<rparr>) callback_init
                 ([loading_ctx, loading_ctx] @ [signed_in_ctx]))
       = [''dashboard'']"
proof -
  have h: "\<forall>c \<in> set [loading_ctx, loading_ctx]. ctx_loading c"
    by (simp add: loading_ctx_def)
  have r: "\<not> ctx_loading signed_out_ctx \<and> \<not> truthy_str (params_get (hash \<lparr>search = [], hash = []\<rparr>) ''error'')"
    by (simp add: signed_out_ctx_def truthy_str_def params_get_def)
  have v: "\<not> ctx_loading signed_in_ctx \<and> \<not> truthy_str (params_get (search \<lparr>search = [], hash = []\<rparr>) ''error'')"
    by (simp add: signed_in_ctx_def truthy_str_def params_get_def)
  note T = callback_waits_while_loading [OF h, of "\<lparr>search = [], hash = []\<rparr>"]
  have 1: "run_effects (AuthCallback_router_effect \<lparr>search = [], hash = []\<rparr>) callback_init [loading_ctx, loading_ctx] = callback_init"
    by (rule T [THEN conjunct1, THEN conjunct1])
  note e2 = T [of signed_out_ctx, THEN conjunct2, THEN conjunct2, THEN conjunct1, THEN mp, OF r]
  have 2: "cb_error (run_effects (AuthCallback_router_effect \<lparr>search = [], hash = []\<rparr>) callback_init
                 ([loading_ctx, loading_ctx] @ [signed_out_ctx]))
       = Some ''Authentication failed. Please try logging in again.''"
    unfolding e2 by (simp add: signed_out_ctx_def)
  note e3 = T [of signed_in_ctx, THEN conjunct2, THEN conjunct2, THEN conjunct2, THEN mp, OF v]
  have 3: "cb_navigated (run_effects (AuthCallback_views_effect \<lparr>search = [], hash = []\<rparr>) callback_init
                 ([loading_ctx, loading_ctx] @ [signed_in_ctx])) = [''dashboard'']"
    unfolding e3 by (simp add: signed_in_ctx_def)
  have 0: "ctx_loading loading_ctx"
    by (simp add: loading_ctx_def)
  from 0 1 2 3 show ?thesis by (intro conjI)
qed

lemma router_effect_error_param:
  "\<not> ctx_loading d \<Longrightarrow> truthy_str (params_get (hash loc) ''error'') \<Longrightarrow>
   AuthCallback_router_effect loc d st =
     st\<lparr>cb_error := Some (''Authentication error: '' @
            or_else (params_get (hash loc) ''error_description'') (the (params_get (hash loc) ''error'')))\<rparr>"
  by (simp add: AuthCallback_router_effect_def Let_def)

lemma views_effect_error_param:
  "\<not> ctx_loading d \<Longrightarrow> truthy_str (params_get (search loc) ''error'') \<Longrightarrow>
   AuthCallback_views_effect loc d st =
     st\<lparr>cb_error := Some (''Authentication error: '' @ the (params_get (search loc) ''error'')),
        cb_authLoading := False\<rparr>"
  by (simp add: AuthCallback_views_effect_def Let_def)

lemma router_effect_no_user:
  "\<not> ctx_loading d \<Longrightarrow> ctx_user d = None \<Longrightarrow>
   (\<exists>m. AuthCallback_router_render (AuthCallback_router_effect loc d callback_init) = ErrorDisplay m ''/login'')
   \<and> cb_navigated (AuthCallback_router_effect loc d callback_init) = []"
  by (simp add: AuthCallback_router_effect_def AuthCallback_router_render_def Let_def
      callback_init_def truthy_str_def)

lemma views_effect_no_user:
  "\<not> ctx_loading d \<Longrightarrow> ctx_user d = None \<Longrightarrow>
   (\<exists>m. AuthCallback_views_render (AuthCallback_views_effect loc d callback_init) = ErrorDisplay m ''login'')
   \<and> cb_navigated (AuthCallback_views_effect loc d callback_init) = []"
  by (simp add: AuthCallback_views_effect_def AuthCallback_views_render_def Let_def
      callback_init_def truthy_str_def)

text \<open>
  Claim C4, as the specification states it, fails: each version of the callback page reads
  one encoding only. The view-switch version reads the query string, so a redirect whose
  fragment carries \<^verbatim>\<open>error=access_denied&error_description=...\<close> is not seen; with a user
  present the page calls \<^verbatim>\<open>setView("dashboard")\<close> and keeps showing the spinner. The router
  version reads the fragment, so the same parameters in the query string are not seen.
\<close>

theorem callback_other_encoding_not_read:
  "AuthCallback_views_render
     (AuthCallback_views_effect \<lparr>search = [], hash = denied_params\<rparr> signed_in_ctx callback_init) = Completing
   \<and> cb_navigated
     (AuthCallback_views_effect \<lparr>search = [], hash = denied_params\<rparr> signed_in_ctx callback_init) = [''dashboard'']
   \<and> AuthCallback_router_render
     (AuthCallback_router_effect \<lparr>search = denied_params, hash = []\<rparr> signed_in_ctx callback_init) = Completing
   \<and> cb_navigated
     (AuthCallback_router_effect \<lparr>search = denied_params, hash = []\<rparr> signed_in_ctx callback_init) = [''/dashboard'']"
  by (simp add: AuthCallback_views_effect_def AuthCallback_views_render_def
      AuthCallback_router_effect_def AuthCallback_router_render_def
      signed_in_ctx_def callback_init_def denied_params_def params_get_def truthy_str_def)

text \<open>
  Claim C4, amended. Once \<^verbatim>\<open>loading\<close> has cleared: the router version shows the error
  screen, with the provider's description (or the error code when there is none) and a
  "Return to Login" button leading to \<^verbatim>\<open>/login\<close>, for every redirect whose fragment carries a
  non-empty \<^verbatim>\<open>error\<close> parameter; the view-switch version shows the error screen, with the
  error code and a button leading to the login view, for every redirect whose query string
  carries a non-empty \<^verbatim>\<open>error\<close> parameter. In those cases nothing is navigated to. In both
  versions a null user never leads onward: the page shows an error screen and navigates
  nowhere, whatever the URL carries.
\<close>

theorem callback_error_parameters:
  assumes "\<forall>c \<in> set cs. ctx_loading c" and "\<not> ctx_loading d"
  shows "(truthy_str (params_get (hash loc) ''error'') \<longrightarrow>
            AuthCallback_router_render (run_effects (AuthCallback_router_effect loc) callback_init (cs @ [d]))
              = ErrorDisplay (''Authentication error: '' @
                   or_else (params_get (hash loc) ''error_description'') (the (params_get (hash loc) ''error'')))
                  ''/login''
            \<and> cb_navigated (run_effects (AuthCallback_router_effect loc) callback_init (cs @ [d])) = [])
       \<and> (truthy_str (params_get (search loc) ''error'') \<longrightarrow>
            AuthCallback_views_render (run_effects (AuthCallback_views_effect loc) callback_init (cs @ [d]))
              = ErrorDisplay (''Authentication error: '' @ the (params_get (search loc) ''error'')) ''login''
            \<and> cb_navigated (run_effects (AuthCallback_views_effect loc) callback_init (cs @ [d])) = [])
       \<and> (ctx_user d = None \<longrightarrow>
            (\<exists>m. AuthCallback_router_render (run_effects (AuthCallback_router_effect loc) callback_init (cs @ [d]))
                   = ErrorDisplay m ''/login'')
            \<and> cb_navigated (run_effects (AuthCallback_router_effect loc) callback_init (cs @ [d])) = []
            \<and> (\<exists>m. AuthCallback_views_render (run_effects (AuthCallback_views_effect loc) callback_init (cs @ [d]))
                   = ErrorDisplay m ''login'')
            \<and> cb_navigated (run_effects (AuthCallback_views_effect loc) callback_init (cs @ [d])) = [])"
proof -
  have rl: "run_effects (AuthCallback_router_effect loc) callback_init (cs @ [d]) =
            AuthCallback_router_effect loc d callback_init"
    using assms(1) by (rule run_effects_router_last)
  have vl: "run_effects (AuthCallback_views_effect loc) callback_init (cs @ [d]) =
            AuthCallback_views_effect loc d callback_init"
    using assms(1) by (rule run_effects_views_last)
  have a: "truthy_str (params_get (hash loc) ''error'') \<longrightarrow>
            AuthCallback_router_render (AuthCallback_router_effect loc d callback_init)
              = ErrorDisplay (''Authentication error: '' @
                   or_else (params_get (hash loc) ''error_description'') (the (params_get (hash loc) ''error'')))
                  ''/login''
            \<and> cb_navigated (AuthCallback_router_effect loc d callback_init) = []"
    using assms(2)
    by (simp add: router_effect_error_param AuthCallback_router_render_def truthy_str_def callback_init_def)
  have b: "truthy_str (params_get (search loc) ''error'') \<longrightarrow>
            AuthCallback_views_render (AuthCallback_views_effect loc d callback_init)
              = ErrorDisplay (''Authentication error: '' @ the (params_get (search loc) ''error'')) ''login''
            \<and> cb_navigated (AuthCallback_views_effect loc d callback_init) = []"
    using assms(2)
    by (simp add: views_effect_error_param AuthCallback_views_render_def truthy_str_def callback_init_def)
  have c: "ctx_user d = None \<longrightarrow>
            (\<exists>m. AuthCallback_router_render (AuthCallback_router_effect loc d callback_init) = ErrorDisplay m ''/login'')
            \<and> cb_navigated (AuthCallback_router_effect loc d callback_init) = []
            \<and> (\<exists>m. AuthCallback_views_render (AuthCallback_views_effect loc d callback_init) = ErrorDisplay m ''login'')
            \<and> cb_navigated (AuthCallback_views_effect loc d callback_init) = []"
    using router_effect_no_user [OF assms(2), of loc] views_effect_no_user [OF assms(2), of loc]
    by blast
  show ?thesis
    unfolding rl vl using a b c by (intro conjI) assumption+
qed

theorem callback_error_parameters_witness:
  "ctx_loading loading_ctx \<and> \<not> ctx_loading signed_out_ctx
   \<and> truthy_str (params_get (hash \<lparr>search = [], hash = denied_params\<rparr>) ''error'')
   \<and> AuthCallback_router_render
       (run_effects (AuthCallback_router_effect \<lparr>search = [], hash = denied_params\<rparr>) callback_init
          ([loading_ctx] @ [signed_out_ctx]))
       = ErrorDisplay ''Authentication error: User denied access'' ''/login''"
proof -
  have h: "\<forall>c \<in> set [loading_ctx]. ctx_loading c"
    by (simp add: loading_ctx_def)
  have 0: "ctx_loading loading_ctx"
    by (simp add: loading_ctx_def)
  have d: "\<not> ctx_loading signed_out_ctx"
    by (simp add: signed_out_ctx_def)
  have t: "truthy_str (params_get (hash \<lparr>search = [], hash = denied_params\<rparr>) ''error'')"
    by (simp add: truthy_str_def params_get_def denied_params_def)
  note T = callback_error_parameters [OF h d, of "\<lparr>search = [], hash = denied_params\<rparr>",
      THEN conjunct1, THEN mp, OF t, THEN conjunct1]
  have 1: "AuthCallback_router_render
       (run_effects (AuthCallback_router_effect \<lparr>search = [], hash = denied_params\<rparr>) callback_init
          ([loading_ctx] @ [signed_out_ctx]))
       = ErrorDisplay ''Authentication error: User denied access'' ''/login''"
    unfolding T by (simp add: or_else_def truthy_str_def params_get_def denied_params_def)
  from 0 d t 1 show ?thesis by (intro conjI)
qed

section \<open>Properties of the route gate\<close>

lemma Routes_cases:
  "Routes rs fb p = Navigate fb \<or> (\<exists>pg \<in> snd ` set rs. Routes rs fb p = Show pg)"
  by (induction rs fb p rule: Routes.induct) auto





lemma Routes_default_unauthenticated:
  "Routes unauthenticated_routes fb [''login''] = Show LoginPage"
  by (simp add: unauthenticated_routes_def)









section \<open>Properties of the API client\<close>

text \<open>\<open>str_includes\<close> is the substring test.\<close>

lemma starts_with_iff: "starts_with s sub \<longleftrightarrow> (\<exists>ss. s = sub @ ss)"
  by (induction s sub rule: starts_with.induct) auto

lemma str_includes_iff: "str_includes s sub \<longleftrightarrow> (\<exists>ps ss. s = ps @ sub @ ss)"
proof (induction s)
  case Nil
  then show ?case by simp
next
  case (Cons x xs)
  note IH = Cons.IH
  show ?case
  proof
    assume "str_includes (x # xs) sub"
    then consider "starts_with (x # xs) sub" | "str_includes xs sub" by auto
    then show "\<exists>ps ss. x # xs = ps @ sub @ ss"
    proof cases
      case 1
      then obtain ss where "x # xs = sub @ ss" using starts_with_iff by blast
      then have "x # xs = [] @ sub @ ss" by simp
      then show ?thesis by blast
    next
      case 2
      with IH obtain ps ss where "xs = ps @ sub @ ss" by blast
      then have "x # xs = (x # ps) @ sub @ ss" by simp
      then show ?thesis by blast
    qed
  next
    assume "\<exists>ps ss. x # xs = ps @ sub @ ss"
    then obtain ps ss where e: "x # xs = ps @ sub @ ss" by blast
    show "str_includes (x # xs) sub"
    proof (cases ps)
      case Nil
      with e have "starts_with (x # xs) sub" using starts_with_iff by auto
      then show ?thesis by auto
    next
      case (Cons p ps')
      with e have "xs = ps' @ sub @ ss" by simp
      with IH have "str_includes xs sub" by blast
      then show ?thesis by auto
    qed
  qed
qed

lemma send_request_sent:
  "fst (send_request e ep opts h) = [build_request e ep opts h]"
  by (simp add: send_request_def Let_def split: sum.splits)

lemma send_request_fails:
  "request_fails e (build_request e ep opts h) \<Longrightarrow> \<exists>err. snd (send_request e ep opts h) = Inl err"
  by (auto simp: send_request_def request_fails_def Let_def isl_def split: sum.splits)

lemma getAuthHeaders_no_token:
  "\<not> has_token e \<Longrightarrow> getAuthHeaders e = Inl (Error ''Authentication failed. Please log in again.'')"
  by (auto simp: getAuthHeaders_def has_token_def Let_def split: sum.splits)

lemma getAuthHeaders_token:
  "env_getSession e = Inr s \<Longrightarrow> session_token s = Some t \<Longrightarrow> t \<noteq> [] \<Longrightarrow>
   getAuthHeaders e = Inr (bearer_headers t)"
  by (simp add: getAuthHeaders_def truthy_str_def Let_def)

lemma getAuthHeaders_p6_token:
  "env_getSession e = Inr s \<Longrightarrow> session_token s = Some t \<Longrightarrow> t \<noteq> [] \<Longrightarrow>
   getAuthHeaders_p6 e = Inr (bearer_headers t)"
  by (simp add: getAuthHeaders_p6_def truthy_str_def Let_def)

lemma getAuthHeaders_p6_no_token:
  "\<not> has_token e \<Longrightarrow> \<exists>err. getAuthHeaders_p6 e = Inl err"
  by (auto simp: getAuthHeaders_p6_def has_token_def Let_def split: sum.splits)

lemma bearer_not_overridden:
  "(case opt_headers opts of None \<Rightarrow> True | Some h \<Rightarrow> h ''Authorization'' = None) \<Longrightarrow>
   req_headers (build_request e ep opts (bearer_headers t)) ''Authorization'' = Some (''Bearer '' @ t)"
  by (auto simp: build_request_def bearer_headers_def map_add_def split: option.splits)

lemma makeRequest_rejects_when_requests_fail:
  "\<forall>req. request_fails e req \<Longrightarrow> \<exists>err. snd (makeRequest e ep opts auth) = Inl err"
  by (cases "if auth then getAuthHeaders e else Inr json_headers")
     (auto simp: makeRequest_def dest: send_request_fails)

lemma makeRequest_p6_rejects_when_requests_fail:
  "\<forall>req. request_fails e req \<Longrightarrow> \<exists>err. snd (makeRequest_p6 e ep opts auth) = Inl err"
proof -
  assume a: "\<forall>req. request_fails e req"
  show ?thesis
  proof (cases "if auth then (case getAuthHeaders_p6 e of
                    Inl authError \<Rightarrow> Inl (Error ''Authentication required. Please log in again.'')
                  | Inr h \<Rightarrow> Inr h) else Inr json_headers")
    case (Inl x)
    then show ?thesis by (simp add: makeRequest_p6_def)
  next
    case (Inr h)
    from a have "request_fails e (build_request e ep opts h)" by simp
    then obtain err where "snd (send_request e ep opts h) = Inl err"
      using send_request_fails by blast
    with Inr show ?thesis by (simp add: makeRequest_p6_def)
  qed
qed

text \<open>
  Claim C6. With \<^verbatim>\<open>requireAuth\<close> true: when the current session holds no access token (no
  session, no token, an empty token, or \<^verbatim>\<open>getSession\<close> rejecting) the call rejects with
  the authentication error and no request is sent; when it holds the token \<open>t\<close>, exactly
  one request is sent, to the base URL followed by the endpoint, and it carries
  \<^verbatim>\<open>Authorization: Bearer t\<close>. Both versions of \<^verbatim>\<open>makeRequest\<close>. The request function is
  private to the module and none of its callers passes headers of its own; the statement
  covers every call whose options carry no \<^verbatim>\<open>Authorization\<close> header.
\<close>

theorem makeRequest_bearer_or_fail_fast:
  "(\<not> has_token e \<longrightarrow>
       makeRequest e ep opts True = ([], Inl (Error ''Authentication failed. Please log in again.''))
     \<and> makeRequest_p6 e ep opts True = ([], Inl (Error ''Authentication required. Please log in again.'')))
   \<and> (env_getSession e = Inr s \<and> session_token s = Some t \<and> t \<noteq> []
       \<and> (case opt_headers opts of None \<Rightarrow> True | Some h \<Rightarrow> h ''Authorization'' = None) \<longrightarrow>
       (\<exists>req. fst (makeRequest e ep opts True) = [req] \<and> req_url req = API_BASE_URL e @ ep
              \<and> req_headers req ''Authorization'' = Some (''Bearer '' @ t))
     \<and> (\<exists>req. fst (makeRequest_p6 e ep opts True) = [req] \<and> req_url req = API_BASE_URL e @ ep
              \<and> req_headers req ''Authorization'' = Some (''Bearer '' @ t)))"
proof (intro conjI impI)
  assume n: "\<not> has_token e"
  show "makeRequest e ep opts True = ([], Inl (Error ''Authentication failed. Please log in again.''))"
    using getAuthHeaders_no_token [OF n] by (simp add: makeRequest_def)
  obtain err where "getAuthHeaders_p6 e = Inl err"
    using getAuthHeaders_p6_no_token [OF n] by blast
  then show "makeRequest_p6 e ep opts True = ([], Inl (Error ''Authentication required. Please log in again.''))"
    by (simp add: makeRequest_p6_def)
next
  assume a: "env_getSession e = Inr s \<and> session_token s = Some t \<and> t \<noteq> []
       \<and> (case opt_headers opts of None \<Rightarrow> True | Some h \<Rightarrow> h ''Authorization'' = None)"
  then have h: "getAuthHeaders e = Inr (bearer_headers t)"
    by (simp add: getAuthHeaders_token)
  from a have h6: "getAuthHeaders_p6 e = Inr (bearer_headers t)"
    by (simp add: getAuthHeaders_p6_token)
  from a have b: "req_headers (build_request e ep opts (bearer_headers t)) ''Authorization'' = Some (''Bearer '' @ t)"
    by (simp add: bearer_not_overridden)
  have u: "req_url (build_request e ep opts (bearer_headers t)) = API_BASE_URL e @ ep"
    by (simp add: build_request_def)
  show "\<exists>req. fst (makeRequest e ep opts True) = [req] \<and> req_url req = API_BASE_URL e @ ep
              \<and> req_headers req ''Authorization'' = Some (''Bearer '' @ t)"
    using h b u by (simp add: makeRequest_def send_request_sent)
  show "\<exists>req. fst (makeRequest_p6 e ep opts True) = [req] \<and> req_url req = API_BASE_URL e @ ep
              \<and> req_headers req ''Authorization'' = Some (''Bearer '' @ t)"
    using h6 b u by (simp add: makeRequest_p6_def send_request_sent)
qed

theorem makeRequest_bearer_or_fail_fast_witness:
  "\<not> has_token (env_with (Inr None) (fetch_status 200 (JObj [])))
   \<and> makeRequest (env_with (Inr None) (fetch_status 200 (JObj []))) ''/profile/u1'' no_options True
       = ([], Inl (Error ''Authentication failed. Please log in again.''))
   \<and> env_getSession (env_with (Inr (Some example_session)) (fetch_status 200 (JObj []))) = Inr (Some example_session)
   \<and> session_token (Some example_session) = Some ''tok''
   \<and> (\<exists>req. fst (makeRequest_p6 (env_with (Inr (Some example_session)) (fetch_status 200 (JObj [])))
                    ''/profile/u1'' no_options True) = [req]
            \<and> req_url req = ''/api/profile/u1''
            \<and> req_headers req ''Authorization'' = Some ''Bearer tok'')"
proof -
  have n: "\<not> has_token (env_with (Inr None) (fetch_status 200 (JObj [])))"
    by (simp add: has_token_def env_with_def session_token_def truthy_str_def)
  note A = makeRequest_bearer_or_fail_fast
    [where e = "env_with (Inr None) (fetch_status 200 (JObj []))" and ep = "''/profile/u1''"
       and opts = no_options,
      THEN conjunct1, THEN mp, OF n, THEN conjunct1]
  have g: "env_getSession (env_with (Inr (Some example_session)) (fetch_status 200 (JObj []))) = Inr (Some example_session)"
    by (simp add: env_with_def)
  have t: "session_token (Some example_session) = Some ''tok''"
    by (simp add: session_token_def example_session_def)
  have o: "(case opt_headers no_options of None \<Rightarrow> True | Some h \<Rightarrow> h ''Authorization'' = None)"
    by (simp add: no_options_def)
  have ne: "''tok'' \<noteq> []" by simp
  note B = makeRequest_bearer_or_fail_fast
    [where e = "env_with (Inr (Some example_session)) (fetch_status 200 (JObj []))"
       and ep = "''/profile/u1''" and s = "Some example_session" and t = "''tok''" and opts = no_options,
      THEN conjunct2, THEN mp, OF conjI [OF g conjI [OF t conjI [OF ne o]]], THEN conjunct2]
  have b: "\<exists>req. fst (makeRequest_p6 (env_with (Inr (Some example_session)) (fetch_status 200 (JObj [])))
                    ''/profile/u1'' no_options True) = [req]
            \<and> req_url req = ''/api/profile/u1''
            \<and> req_headers req ''Authorization'' = Some ''Bearer tok''"
    using B by (simp add: API_BASE_URL_def env_with_def or_else_def truthy_str_def)
  from n A g t b show ?thesis by (intro conjI)
qed

lemma getScholarshipStats_p6_params_throw:
  "userId_params uid = Inl err \<Longrightarrow>
   getScholarshipStats_p6 e uid =
     ([], Inr (JObj [(''totalEligibleAmount'', JNum 0), (''opportunities'', JArr [])]))"
  by (simp add: getScholarshipStats_p6_def)

lemma getScholarshipStats_p6_sent:
  "userId_params uid = Inr ps \<Longrightarrow>
   fst (getScholarshipStats_p6 e uid) =
     fst (makeRequest_p6 e (''/dashboard/scholarship-stats'' @ ps) no_options False)"
  by (cases "makeRequest_p6 e (''/dashboard/scholarship-stats'' @ ps) no_options False")
     (auto simp: getScholarshipStats_p6_def split: sum.splits)

lemma getScholarshipStats_p6_passes:
  "userId_params uid = Inr ps \<Longrightarrow>
   snd (makeRequest_p6 e (''/dashboard/scholarship-stats'' @ ps) no_options False) = Inr v \<Longrightarrow>
   snd (getScholarshipStats_p6 e uid) = Inr v"
  by (cases "makeRequest_p6 e (''/dashboard/scholarship-stats'' @ ps) no_options False")
     (auto simp: getScholarshipStats_p6_def split: sum.splits)

lemma getScholarshipStats_p6_fallback:
  "userId_params uid = Inr ps \<Longrightarrow>
   snd (makeRequest_p6 e (''/dashboard/scholarship-stats'' @ ps) no_options False) = Inl err \<Longrightarrow>
   snd (getScholarshipStats_p6 e uid) =
     Inr (JObj [(''totalEligibleAmount'', JNum 0), (''opportunities'', JArr [])])"
  by (cases "makeRequest_p6 e (''/dashboard/scholarship-stats'' @ ps) no_options False")
     (auto simp: getScholarshipStats_p6_def split: sum.splits)

lemma getScholarshipStats_p6_resolves:
  "\<exists>v. snd (getScholarshipStats_p6 e uid) = Inr v"
proof (cases "userId_params uid")
  case (Inl err)
  then show ?thesis by (simp add: getScholarshipStats_p6_params_throw)
next
  case (Inr ps)
  show ?thesis
  proof (cases "snd (makeRequest_p6 e (''/dashboard/scholarship-stats'' @ ps) no_options False)")
    case (Inl err)
    with Inr show ?thesis by (simp add: getScholarshipStats_p6_fallback)
  next
    case (Inr v)
    with \<open>userId_params uid = Inr ps\<close> show ?thesis by (simp add: getScholarshipStats_p6_passes)
  qed
qed

lemma getScholarshipStats_p6_fallback_all:
  "\<forall>req. request_fails e req \<Longrightarrow>
   snd (getScholarshipStats_p6 e uid) = Inr (JObj [(''totalEligibleAmount'', JNum 0), (''opportunities'', JArr [])])"
proof (cases "userId_params uid")
  case (Inl err)
  then show ?thesis by (simp add: getScholarshipStats_p6_params_throw)
next
  case (Inr ps)
  assume "\<forall>req. request_fails e req"
  then obtain err where
    "snd (makeRequest_p6 e (''/dashboard/scholarship-stats'' @ ps) no_options False) = Inl err"
    using makeRequest_p6_rejects_when_requests_fail by blast
  with Inr show ?thesis by (rule getScholarshipStats_p6_fallback)
qed

lemma getScholarshipStats_rethrows:
  "snd (getScholarshipStats e sp) =
   snd (makeRequest e (''/scholarships/stats?studentProfile='' @ env_encode e sp) no_options False)"
  by (cases "makeRequest e (''/scholarships/stats?studentProfile='' @ env_encode e sp) no_options False")
     (auto simp: getScholarshipStats_def split: sum.splits)

text \<open>
  Claim C2, as the specification states it, fails for \<^verbatim>\<open>getScholarshipStats\<close> of
  \<^verbatim>\<open>src/services/api.js\<close>: its \<^verbatim>\<open>catch\<close> logs the error and throws it again. With a
  network failure the caller receives the rejection, not an empty shape.
\<close>

theorem getScholarshipStats_propagates_failure:
  "snd (getScholarshipStats (env_with (Inr (Some example_session)) fetch_rejects) (JObj []))
     = Inl (Error ''Failed to fetch'')"
  by (simp add: getScholarshipStats_def makeRequest_def send_request_def env_with_def
      fetch_rejects_def Let_def)

text \<open>
  Claim C2, amended. \<^verbatim>\<open>getScholarshipStats\<close> of the dashboard's API client never
  rejects: it sends one request (none when its user id cannot be put into the URL), and
  when that request fails it resolves to
  \<^verbatim>\<open>{ totalEligibleAmount: 0, opportunities: [] }\<close>. \<^verbatim>\<open>getScholarshipStats\<close> of
  \<^verbatim>\<open>src/services/api.js\<close> settles as its request does, so a failure is rejected to the
  caller. \<^verbatim>\<open>updateProfile\<close>, in both versions, settles as its request does, so a failure
  is rejected to the caller; in particular, with a backend whose every request fails,
  both stats functions and both update functions behave as just said.
\<close>

theorem api_failure_policy:
  "\<not> isl (snd (getScholarshipStats_p6 e uid))
   \<and> length (fst (getScholarshipStats_p6 e uid)) = (if isl (userId_params uid) then 0 else 1)
   \<and> (\<forall>ps err. userId_params uid = Inr ps
         \<and> snd (makeRequest_p6 e (''/dashboard/scholarship-stats'' @ ps) no_options False) = Inl err
         \<longrightarrow> snd (getScholarshipStats_p6 e uid) =
               Inr (JObj [(''totalEligibleAmount'', JNum 0), (''opportunities'', JArr [])]))
   \<and> (isl (userId_params uid)
         \<longrightarrow> snd (getScholarshipStats_p6 e uid) =
               Inr (JObj [(''totalEligibleAmount'', JNum 0), (''opportunities'', JArr [])]))
   \<and> snd (getScholarshipStats e sp) =
       snd (makeRequest e (''/scholarships/stats?studentProfile='' @ env_encode e sp) no_options False)
   \<and> snd (updateProfile e userId pd) =
       snd (makeRequest e (''/profile/'' @ userId)
              \<lparr> opt_method = Some ''PUT'', opt_body = Some (JObj [(''profileData'', pd)]),
                opt_headers = None \<rparr> True)
   \<and> snd (updateProfile_p6 e userId pd) =
       snd (makeRequest_p6 e (''/profile/'' @ userId)
              \<lparr> opt_method = Some ''PUT'', opt_body = Some (JObj [(''profileData'', pd)]),
                opt_headers = None \<rparr> True)
   \<and> ((\<forall>req. request_fails e req) \<longrightarrow>
         snd (getScholarshipStats_p6 e uid) =
           Inr (JObj [(''totalEligibleAmount'', JNum 0), (''opportunities'', JArr [])])
       \<and> (\<exists>err. snd (getScholarshipStats e sp) = Inl err)
       \<and> (\<exists>err. snd (updateProfile e userId pd) = Inl err)
       \<and> (\<exists>err. snd (updateProfile_p6 e userId pd) = Inl err))"
proof -
  have 0: "\<not> isl (snd (getScholarshipStats_p6 e uid))"
    using getScholarshipStats_p6_resolves [of e uid] by auto
  have 1: "length (fst (getScholarshipStats_p6 e uid)) = (if isl (userId_params uid) then 0 else 1)"
  proof (cases "userId_params uid")
    case (Inl err)
    then show ?thesis by (simp add: getScholarshipStats_p6_params_throw)
  next
    case (Inr ps)
    then show ?thesis
      by (simp add: getScholarshipStats_p6_sent makeRequest_p6_def send_request_sent)
  qed
  have 2: "\<forall>ps err. userId_params uid = Inr ps
         \<and> snd (makeRequest_p6 e (''/dashboard/scholarship-stats'' @ ps) no_options False) = Inl err
         \<longrightarrow> snd (getScholarshipStats_p6 e uid) =
               Inr (JObj [(''totalEligibleAmount'', JNum 0), (''opportunities'', JArr [])])"
    using getScholarshipStats_p6_fallback by blast
  have pt: "isl (userId_params uid)
         \<longrightarrow> snd (getScholarshipStats_p6 e uid) =
               Inr (JObj [(''totalEligibleAmount'', JNum 0), (''opportunities'', JArr [])])"
    by (cases "userId_params uid") (simp_all add: getScholarshipStats_p6_params_throw)
  have 3: "snd (getScholarshipStats e sp) =
       snd (makeRequest e (''/scholarships/stats?studentProfile='' @ env_encode e sp) no_options False)"
    by (rule getScholarshipStats_rethrows)
  have u1: "snd (updateProfile e userId pd) =
       snd (makeRequest e (''/profile/'' @ userId)
              \<lparr> opt_method = Some ''PUT'', opt_body = Some (JObj [(''profileData'', pd)]),
                opt_headers = None \<rparr> True)"
    by (simp add: updateProfile_def)
  have u2: "snd (updateProfile_p6 e userId pd) =
       snd (makeRequest_p6 e (''/profile/'' @ userId)
              \<lparr> opt_method = Some ''PUT'', opt_body = Some (JObj [(''profileData'', pd)]),
                opt_headers = None \<rparr> True)"
    by (simp add: updateProfile_p6_def)
  have 4: "(\<forall>req. request_fails e req) \<longrightarrow>
         snd (getScholarshipStats_p6 e uid) =
           Inr (JObj [(''totalEligibleAmount'', JNum 0), (''opportunities'', JArr [])])
       \<and> (\<exists>err. snd (getScholarshipStats e sp) = Inl err)
       \<and> (\<exists>err. snd (updateProfile e userId pd) = Inl err)
       \<and> (\<exists>err. snd (updateProfile_p6 e userId pd) = Inl err)"
  proof
    assume f: "\<forall>req. request_fails e req"
    have a: "snd (getScholarshipStats_p6 e uid) =
           Inr (JObj [(''totalEligibleAmount'', JNum 0), (''opportunities'', JArr [])])"
      using f by (rule getScholarshipStats_p6_fallback_all)
    have b: "\<exists>err. snd (getScholarshipStats e sp) = Inl err"
      unfolding getScholarshipStats_rethrows
      using f by (rule makeRequest_rejects_when_requests_fail)
    have c: "\<exists>err. snd (updateProfile e userId pd) = Inl err"
      unfolding updateProfile_def
      using f by (rule makeRequest_rejects_when_requests_fail)
    have d: "\<exists>err. snd (updateProfile_p6 e userId pd) = Inl err"
      unfolding updateProfile_p6_def
      using f by (rule makeRequest_p6_rejects_when_requests_fail)
    from a b c d show "snd (getScholarshipStats_p6 e uid) =
           Inr (JObj [(''totalEligibleAmount'', JNum 0), (''opportunities'', JArr [])])
       \<and> (\<exists>err. snd (getScholarshipStats e sp) = Inl err)
       \<and> (\<exists>err. snd (updateProfile e userId pd) = Inl err)
       \<and> (\<exists>err. snd (updateProfile_p6 e userId pd) = Inl err)"
      by (intro conjI)
  qed
  from 0 1 2 pt 3 u1 u2 4 show ?thesis by (intro conjI)
qed

theorem api_failure_policy_witness:
  "(\<forall>req. request_fails (env_with (Inr (Some example_session)) (fetch_status 500 (JObj []))) req)
   \<and> snd (getScholarshipStats_p6 (env_with (Inr (Some example_session)) (fetch_status 500 (JObj []))) (JStr ''u1''))
       = Inr (JObj [(''totalEligibleAmount'', JNum 0), (''opportunities'', JArr [])])
   \<and> snd (updateProfile (env_with (Inr (Some example_session)) (fetch_status 500 (JObj []))) ''u1'' (JObj []))
       = Inl (Error ''HTTP error! status: 500'')"
proof -
  have h: "\<forall>req. request_fails (env_with (Inr (Some example_session)) (fetch_status 500 (JObj []))) req"
    by (simp add: request_fails_def env_with_def fetch_status_def)
  note T = api_failure_policy [where e = "env_with (Inr (Some example_session)) (fetch_status 500 (JObj []))"
      and uid = "JStr ''u1''",
      THEN conjunct2, THEN conjunct2, THEN conjunct2, THEN conjunct2, THEN conjunct2,
      THEN conjunct2, THEN conjunct2, THEN mp, OF h, THEN conjunct1]
  have u: "snd (updateProfile (env_with (Inr (Some example_session)) (fetch_status 500 (JObj []))) ''u1'' (JObj []))
       = Inl (Error ''HTTP error! status: 500'')"
    by (simp add: updateProfile_def makeRequest_def getAuthHeaders_def send_request_def build_request_def
        env_with_def example_session_def fetch_status_def session_token_def truthy_str_def
        show_nat.simps digit_char_def Let_def)
  from h T u show ?thesis by (intro conjI)
qed

section \<open>Properties of the profile reconciler\<close>














section \<open>Properties of the identity-provider client and the Session Store\<close>

lemma snd_log_and_rethrow: "snd (log_and_rethrow label r) = r"
  by (cases r) (simp_all add: log_and_rethrow_def)


lemma supabase_p9_loads: "\<exists>c. supabase_p9 env createClient = Inr c"
  by (simp add: supabase_p9_def Let_def split: sum.splits)

lemma supabase_p9_mock:
  "\<not> truthy_str (REACT_APP_SUPABASE_URL env) \<or> \<not> truthy_str (REACT_APP_SUPABASE_ANON_KEY env) \<Longrightarrow>
   supabase_p9 env createClient = Inr mock_client"
  by (auto simp: supabase_p9_def Let_def)

lemma supabase_throws:
  "\<not> truthy_str (REACT_APP_SUPABASE_URL env) \<or> \<not> truthy_str (REACT_APP_SUPABASE_ANON_KEY env) \<Longrightarrow>
   \<exists>err. supabase env createClient = Inl err"
  by (auto simp: supabase_def Let_def)

text \<open>
  Claim C7, as the specification states it, fails for \<^verbatim>\<open>src/utils/supabase.js\<close>: with
  both variables unset the module throws while it loads.
\<close>

theorem supabase_throws_without_configuration:
  "supabase no_env (\<lambda>url key. Inr rejecting_client) =
     Inl (Error ''Supabase environment variables (REACT_APP_SUPABASE_URL and REACT_APP_SUPABASE_ANON_KEY) are not set.'')"
  by (simp add: supabase_def no_env_def truthy_str_def)

text \<open>
  Claim C7, amended. In the version of \<^verbatim>\<open>supabase.js\<close> with the mock client, loading the
  module never throws. When the URL or the key is absent or empty, or when creating the
  client throws, the client is the mock:
  \<^verbatim>\<open>signInWithPassword\<close>, \<^verbatim>\<open>signUp\<close>, \<^verbatim>\<open>signOut\<close>, \<^verbatim>\<open>signInWithOAuth\<close>,
  \<^verbatim>\<open>resetPasswordForEmail\<close>, \<^verbatim>\<open>signInWithOtp\<close> and \<^verbatim>\<open>verifyOtp\<close> resolve to
  \<^verbatim>\<open>{ error: { message: 'Supabase not configured' } }\<close>, \<^verbatim>\<open>getSession\<close> resolves to a null
  session, and the application comes up signed out, on the login page. In
  \<^verbatim>\<open>src/utils/supabase.js\<close> loading the module throws in that case.
\<close>

theorem supabase_mock_when_unconfigured:
  "(\<exists>c. supabase_p9 env createClient = Inr c)
   \<and> (\<not> truthy_str (REACT_APP_SUPABASE_URL env) \<or> \<not> truthy_str (REACT_APP_SUPABASE_ANON_KEY env) \<longrightarrow>
        supabase_p9 env createClient = Inr mock_client
        \<and> (\<exists>err. supabase env createClient = Inl err))
   \<and> (\<forall>op args. op \<noteq> UpdateUser \<longrightarrow> cl_call mock_client op args = Inr not_configured)
   \<and> cl_getSession mock_client = Inr None
   \<and> getInitialSession mock_client = signed_out_ctx
   \<and> displayed 2 (getInitialSession mock_client) p \<in> {Some (Show LoginPage), Some (Show AuthCallback), Some (Show ResetPasswordPage)}
   \<and> (\<forall>err. truthy_str (REACT_APP_SUPABASE_URL env) \<and> truthy_str (REACT_APP_SUPABASE_ANON_KEY env)
            \<and> createClient (the (REACT_APP_SUPABASE_URL env)) (the (REACT_APP_SUPABASE_ANON_KEY env)) = Inl err
            \<longrightarrow> supabase_p9 env createClient = Inr mock_client)"
proof -
  have 1: "\<exists>c. supabase_p9 env createClient = Inr c"
    by (rule supabase_p9_loads)
  have 2: "\<not> truthy_str (REACT_APP_SUPABASE_URL env) \<or> \<not> truthy_str (REACT_APP_SUPABASE_ANON_KEY env) \<longrightarrow>
        supabase_p9 env createClient = Inr mock_client
        \<and> (\<exists>err. supabase env createClient = Inl err)"
    using supabase_p9_mock supabase_throws by blast
  have 3: "\<forall>op args. op \<noteq> UpdateUser \<longrightarrow> cl_call mock_client op args = Inr not_configured"
    by (simp add: mock_client_def)
  have 4: "cl_getSession mock_client = Inr None"
    by (simp add: mock_client_def)
  have 5: "getInitialSession mock_client = signed_out_ctx"
    by (simp add: getInitialSession_def mock_client_def signed_out_ctx_def)
  have m: "Main_router signed_out_ctx q = Routes unauthenticated_routes [''login''] q" for q
    by (simp add: Main_router_def signed_out_ctx_def)
  have r: "Routes unauthenticated_routes [''login''] p = Navigate [''login'']
           \<or> Routes unauthenticated_routes [''login''] p \<in> {Show LoginPage, Show AuthCallback, Show ResetPasswordPage}"
    using Routes_cases [of unauthenticated_routes "[''login'']" p]
    by (auto simp: unauthenticated_routes_def)
  have 6: "displayed 2 (getInitialSession mock_client) p
             \<in> {Some (Show LoginPage), Some (Show AuthCallback), Some (Show ResetPasswordPage)}"
    unfolding 5 using r
    by (auto simp: numeral_2_eq_2 m Routes_default_unauthenticated)
  have 7: "\<forall>err. truthy_str (REACT_APP_SUPABASE_URL env) \<and> truthy_str (REACT_APP_SUPABASE_ANON_KEY env)
            \<and> createClient (the (REACT_APP_SUPABASE_URL env)) (the (REACT_APP_SUPABASE_ANON_KEY env)) = Inl err
            \<longrightarrow> supabase_p9 env createClient = Inr mock_client"
    by (simp add: supabase_p9_def Let_def)
  from 1 2 3 4 5 6 7 show ?thesis by (intro conjI)
qed

theorem supabase_mock_when_unconfigured_witness:
  "\<not> truthy_str (REACT_APP_SUPABASE_URL no_env)
   \<and> supabase_p9 no_env (\<lambda>url key. Inr rejecting_client) = Inr mock_client
   \<and> UpdateUser \<noteq> SignInWithPassword
   \<and> snd (signIn mock_client credentials) = Inr not_configured"
proof -
  have n: "\<not> truthy_str (REACT_APP_SUPABASE_URL no_env)"
    by (simp add: no_env_def truthy_str_def)
  note T = supabase_mock_when_unconfigured [of no_env "\<lambda>url key. Inr rejecting_client"]
  note a = T [THEN conjunct2, THEN conjunct1, THEN mp, OF disjI1, OF n, THEN conjunct1]
  have d: "UpdateUser \<noteq> SignInWithPassword" by simp
  have "cl_call mock_client SignInWithPassword [credentials] = Inr not_configured"
    using T [THEN conjunct2, THEN conjunct2, THEN conjunct1] by simp
  then have b: "snd (signIn mock_client credentials) = Inr not_configured"
    by (simp add: signIn_def snd_log_and_rethrow)
  from n a d b show ?thesis by (intro conjI)
qed




section \<open>Properties of profile completeness\<close>

lemma length_filter_all:
  "length (filter P xs) = length xs \<longleftrightarrow> (\<forall>x \<in> set xs. P x)"
proof (induction xs)
  case Nil
  then show ?case by simp
next
  case (Cons x xs)
  show ?case
  proof (cases "P x")
    case True
    with Cons show ?thesis by simp
  next
    case False
    have "length (filter P xs) \<le> length xs" by (rule length_filter_le)
    then have "length (filter P xs) \<noteq> Suc (length xs)" by arith
    with False show ?thesis by simp
  qed
qed

lemma round_percent_five: "k \<le> 5 \<Longrightarrow> round_percent k 5 = 20 * k"
  by (simp add: round_percent_def)

lemma isProfileComplete_iff:
  "isProfileComplete p \<longleftrightarrow> (\<exists>kvs v. p = JObj kvs \<and> map_of kvs ''gpa'' = Some v \<and> truthy v)"
  by (cases p) (auto simp: isProfileComplete_def get_prop_opt_def split: option.splits)

lemma field_completed_true:
  "field_completed p f = Inr True \<longleftrightarrow>
   truthy (get_prop_opt p f)
   \<and> (\<exists>s. toString_call (get_prop_opt p f) = Inr s \<and> trim s \<noteq> [])
   \<and> get_prop_opt p f \<noteq> JStr ''N/A''"
  by (cases "toString_call (get_prop_opt p f)") (auto simp: field_completed_def Let_def)

lemma field_completed_throws:
  "field_completed p f = Inl err \<longleftrightarrow>
   truthy (get_prop_opt p f) \<and> toString_call (get_prop_opt p f) = Inl err"
  by (cases "toString_call (get_prop_opt p f)") (auto simp: field_completed_def Let_def)

lemma filter_fields_ok:
  "\<forall>f \<in> set fs. \<not> isl (field_completed p f) \<Longrightarrow>
   filter_fields p fs = Inr (filter (\<lambda>f. field_completed p f = Inr True) fs)"
proof (induction fs)
  case Nil
  then show ?case by simp
next
  case (Cons f fs)
  then obtain b where b: "field_completed p f = Inr b"
    by (cases "field_completed p f") auto
  from Cons have "filter_fields p fs = Inr (filter (\<lambda>f. field_completed p f = Inr True) fs)"
    by simp
  with b show ?case by simp
qed

lemma filter_fields_throws:
  "isl (filter_fields p fs) \<longleftrightarrow> (\<exists>f \<in> set fs. isl (field_completed p f))"
proof (induction fs)
  case Nil
  then show ?case by simp
next
  case (Cons f fs)
  show ?case
  proof (cases "field_completed p f")
    case (Inl err)
    then show ?thesis by simp
  next
    case (Inr b)
    with Cons show ?thesis
      by (cases "filter_fields p fs") simp_all
  qed
qed

lemma length_requiredFields: "length requiredFields = 5"
  by (simp add: requiredFields_def)

lemma calculateProfileCompleteness_throws:
  "isl (calculateProfileCompleteness p) \<longleftrightarrow>
   truthy p \<and> (\<exists>f \<in> set requiredFields. isl (field_completed p f))"
proof (cases "truthy p")
  case False
  then show ?thesis by (simp add: calculateProfileCompleteness_def)
next
  case True
  have "isl (calculateProfileCompleteness p) \<longleftrightarrow> isl (filter_fields p requiredFields)"
    using True
    by (cases "filter_fields p requiredFields") (simp_all add: calculateProfileCompleteness_def)
  with True show ?thesis by (simp add: filter_fields_throws)
qed

lemma calculateProfileCompleteness_count:
  assumes "truthy p" and "\<forall>f \<in> set requiredFields. \<not> isl (field_completed p f)"
  shows "calculateProfileCompleteness p =
           Inr (20 * length (filter (\<lambda>f. field_completed p f = Inr True) requiredFields))"
proof -
  let ?c = "filter (\<lambda>f. field_completed p f = Inr True) requiredFields"
  have f: "filter_fields p requiredFields = Inr ?c"
    using assms(2) by (rule filter_fields_ok)
  have "length ?c \<le> length requiredFields"
    by (rule length_filter_le)
  then have "length ?c \<le> 5"
    by (simp only: length_requiredFields)
  then have "round_percent (length ?c) 5 = 20 * length ?c"
    by (rule round_percent_five)
  then show ?thesis
    using assms(1) by (simp add: calculateProfileCompleteness_def f length_requiredFields)
qed

lemma calculateProfileCompleteness_full:
  "calculateProfileCompleteness p = Inr 100 \<longleftrightarrow>
   truthy p \<and> (\<forall>f \<in> set requiredFields. field_completed p f = Inr True)"
proof (cases "truthy p")
  case False
  then show ?thesis by (simp add: calculateProfileCompleteness_def)
next
  case True
  show ?thesis
  proof (cases "\<exists>f \<in> set requiredFields. isl (field_completed p f)")
    case t: True
    with True have "isl (calculateProfileCompleteness p)"
      by (simp add: calculateProfileCompleteness_throws)
    then have l: "calculateProfileCompleteness p \<noteq> Inr 100"
      by auto
    from t obtain f where m: "f \<in> set requiredFields" and "isl (field_completed p f)"
      by blast
    then have "field_completed p f \<noteq> Inr True"
      by (cases "field_completed p f") simp_all
    with m have "\<not> (\<forall>f \<in> set requiredFields. field_completed p f = Inr True)"
      by blast
    with l show ?thesis by simp
  next
    case f: False
    then have n: "\<forall>f \<in> set requiredFields. \<not> isl (field_completed p f)"
      by simp
    have "length (filter (\<lambda>f. field_completed p f = Inr True) requiredFields) = 5 \<longleftrightarrow>
          length (filter (\<lambda>f. field_completed p f = Inr True) requiredFields) = length requiredFields"
      by (simp only: length_requiredFields)
    also have "\<dots> \<longleftrightarrow> (\<forall>f \<in> set requiredFields. field_completed p f = Inr True)"
      by (rule length_filter_all)
    finally show ?thesis
      using True by (simp add: calculateProfileCompleteness_count [OF True n])
  qed
qed

lemma toString_call_object:
  "toString_call (JObj kvs) =
     (if map_of kvs ''toString'' \<noteq> None then Inl (Error ''value.toString is not a function'')
      else Inr ''[object Object]'')"
  by (simp add: toString_call_def)

lemma manageUserProfile_flag:
  "rc_isProfileComplete (manageUserProfile e usr) = isProfileComplete (rc_profile (manageUserProfile e usr))"
proof (cases usr)
  case None
  then show ?thesis
    by (simp add: manageUserProfile_def isProfileComplete_def get_prop_opt_def)
next
  case (Some u)
  show ?thesis
  proof (cases "getProfile e (user_id u)")
    case (Pair s1 r)
    show ?thesis
    proof (cases r)
      case (Inl err)
      with Pair Some show ?thesis
        by (simp add: manageUserProfile_def isProfileComplete_def get_prop_opt_def)
    next
      case (Inr v)
      show ?thesis
      proof (cases "createProfile e (user_id u) (newProfileData u)")
        case (Pair s2 r2)
        with \<open>getProfile e (user_id u) = (s1, r)\<close> Inr Some show ?thesis
          by (cases r2) (simp_all add: manageUserProfile_def isProfileComplete_def get_prop_opt_def)
      qed
    qed
  qed
qed

text \<open>
  Claim C3, as the specification states it, fails: the predicate that gates navigation is
  the truthiness of \<^verbatim>\<open>gpa\<close> alone. A profile whose only field is \<^verbatim>\<open>gpa: 'N/A'\<close> is
  complete for the gate, although its one required field holds the placeholder and the
  dashboard counts none of its required fields as filled in.
\<close>

theorem placeholder_gpa_counts_as_complete:
  "isProfileComplete (JObj [(''gpa'', JStr ''N/A'')])
   \<and> calculateProfileCompleteness (JObj [(''gpa'', JStr ''N/A'')]) = Inr 0"
  by (simp add: isProfileComplete_def get_prop_opt_def calculateProfileCompleteness_def
      field_completed_def toString_call_def requiredFields_def round_percent_def Let_def)

text \<open>
  Claim C3, amended. The completeness flag that gates navigation is true exactly when the
  profile is an object whose \<^verbatim>\<open>gpa\<close> is present and truthy (not \<^verbatim>\<open>null\<close>, \<^verbatim>\<open>false\<close>, \<^verbatim>\<open>0\<close>
  or the empty string); no other field is looked at and a placeholder is not excluded. It
  is a function of the profile alone: the flag the reconciler sets is that function of the
  profile it sets. The dashboard's completeness figure counts a field among \<^verbatim>\<open>gpa\<close>,
  \<^verbatim>\<open>satScore\<close>, \<^verbatim>\<open>gradeLevel\<close>, \<^verbatim>\<open>extracurriculars\<close>, \<^verbatim>\<open>career_goals\<close> when it is present,
  truthy, not blank after conversion to a string and trimming, and not \<^verbatim>\<open>'N/A'\<close>. The
  computation throws exactly when the profile is truthy and the conversion throws for one
  of these fields (a truthy value whose \<^verbatim>\<open>toString\<close> call throws, such as an object with
  a property named \<^verbatim>\<open>toString\<close>); otherwise the figure is twenty times the number of
  fields counted. It is 100 exactly when all five count.
\<close>

theorem completeness_characterised:
  "(isProfileComplete p \<longleftrightarrow> (\<exists>kvs v. p = JObj kvs \<and> map_of kvs ''gpa'' = Some v \<and> truthy v))
   \<and> rc_isProfileComplete (manageUserProfile e usr) = isProfileComplete (rc_profile (manageUserProfile e usr))
   \<and> (field_completed p f = Inr True \<longleftrightarrow>
        truthy (get_prop_opt p f)
        \<and> (\<exists>s. toString_call (get_prop_opt p f) = Inr s \<and> trim s \<noteq> [])
        \<and> get_prop_opt p f \<noteq> JStr ''N/A'')
   \<and> (field_completed p f = Inl err \<longleftrightarrow>
        truthy (get_prop_opt p f) \<and> toString_call (get_prop_opt p f) = Inl err)
   \<and> toString_call (JObj kvs) =
        (if map_of kvs ''toString'' \<noteq> None then Inl (Error ''value.toString is not a function'')
         else Inr ''[object Object]'')
   \<and> (isl (calculateProfileCompleteness p) \<longleftrightarrow>
        truthy p \<and> (\<exists>f \<in> set requiredFields. isl (field_completed p f)))
   \<and> (truthy p \<and> (\<forall>f \<in> set requiredFields. \<not> isl (field_completed p f)) \<longrightarrow>
        calculateProfileCompleteness p =
          Inr (20 * length (filter (\<lambda>f. field_completed p f = Inr True) requiredFields)))
   \<and> (calculateProfileCompleteness p = Inr 100 \<longleftrightarrow>
        truthy p \<and> (\<forall>f \<in> set requiredFields. field_completed p f = Inr True))"
proof -
  have 1: "isProfileComplete p \<longleftrightarrow> (\<exists>kvs v. p = JObj kvs \<and> map_of kvs ''gpa'' = Some v \<and> truthy v)"
    by (rule isProfileComplete_iff)
  have 2: "rc_isProfileComplete (manageUserProfile e usr) = isProfileComplete (rc_profile (manageUserProfile e usr))"
    by (rule manageUserProfile_flag)
  have 3: "field_completed p f = Inr True \<longleftrightarrow>
        truthy (get_prop_opt p f)
        \<and> (\<exists>s. toString_call (get_prop_opt p f) = Inr s \<and> trim s \<noteq> [])
        \<and> get_prop_opt p f \<noteq> JStr ''N/A''"
    by (rule field_completed_true)
  have 4: "field_completed p f = Inl err \<longleftrightarrow>
        truthy (get_prop_opt p f) \<and> toString_call (get_prop_opt p f) = Inl err"
    by (rule field_completed_throws)
  have 5: "toString_call (JObj kvs) =
        (if map_of kvs ''toString'' \<noteq> None then Inl (Error ''value.toString is not a function'')
         else Inr ''[object Object]'')"
    by (rule toString_call_object)
  have 6: "isl (calculateProfileCompleteness p) \<longleftrightarrow>
        truthy p \<and> (\<exists>f \<in> set requiredFields. isl (field_completed p f))"
    by (rule calculateProfileCompleteness_throws)
  have 7: "truthy p \<and> (\<forall>f \<in> set requiredFields. \<not> isl (field_completed p f)) \<longrightarrow>
        calculateProfileCompleteness p =
          Inr (20 * length (filter (\<lambda>f. field_completed p f = Inr True) requiredFields))"
    using calculateProfileCompleteness_count by blast
  have 8: "calculateProfileCompleteness p = Inr 100 \<longleftrightarrow>
        truthy p \<and> (\<forall>f \<in> set requiredFields. field_completed p f = Inr True)"
    by (rule calculateProfileCompleteness_full)
  from 1 2 3 4 5 6 7 8 show ?thesis by (intro conjI)
qed

theorem completeness_characterised_witness:
  "truthy full_profile
   \<and> calculateProfileCompleteness full_profile = Inr 100
   \<and> isProfileComplete full_profile
   \<and> truthy (JObj [(''gpa'', JObj [(''toString'', JStr ''x'')])])
   \<and> isl (calculateProfileCompleteness (JObj [(''gpa'', JObj [(''toString'', JStr ''x'')])]))"
proof -
  have t: "truthy full_profile"
    by (simp add: full_profile_def)
  have a: "\<forall>f \<in> set requiredFields. field_completed full_profile f = Inr True"
    by (simp add: full_profile_def field_completed_def toString_call_def requiredFields_def
        get_prop_opt_def trim_def is_space_def Let_def show_int_def show_nat.simps digit_char_def)
  note T = completeness_characterised [of full_profile]
  have c: "calculateProfileCompleteness full_profile = Inr 100"
    using T [THEN conjunct2, THEN conjunct2, THEN conjunct2, THEN conjunct2, THEN conjunct2,
             THEN conjunct2, THEN conjunct2] t a by blast
  have "\<exists>kvs v. full_profile = JObj kvs \<and> map_of kvs ''gpa'' = Some v \<and> truthy v"
    by (simp add: full_profile_def)
  then have g: "isProfileComplete full_profile"
    using T [THEN conjunct1] by blast
  let ?q = "JObj [(''gpa'', JObj [(''toString'', JStr ''x'')])]"
  have tq: "truthy ?q" by simp
  have "isl (field_completed ?q ''gpa'')"
    by (simp add: field_completed_def toString_call_def get_prop_opt_def Let_def)
  then have "\<exists>f \<in> set requiredFields. isl (field_completed ?q f)"
    by (auto simp: requiredFields_def)
  with tq have d: "isl (calculateProfileCompleteness ?q)"
    using completeness_characterised [of ?q, THEN conjunct2, THEN conjunct2, THEN conjunct2,
             THEN conjunct2, THEN conjunct2, THEN conjunct1] by blast
  from t c g tq d show ?thesis by (intro conjI)
qed

section \<open>Properties of the dashboard's data load\<close>
























end
